theory Spec2Isabelle
  imports Complex_Main "HOL-Library.Multiset" "HOL-Library.Code_Target_Nat"
begin

section \<open>Chunking engine (routes/vector_routes.py, chunk\_text)\<close>

text \<open>
  A Python \<open>str\<close> is modelled as a list of characters, one list element per character
  (the 256 characters of \<open>char\<close>).
  Python's unbounded integers are \<open>int\<close>; positions that index the text are adjusted
  as Python adjusts the bounds of a slice: a negative bound counts from the end, and every
  bound is clamped to the text.
\<close>

definition adjust_index :: "nat \<Rightarrow> int \<Rightarrow> nat" where
  "adjust_index n i = (if i < 0 then nat (max 0 (i + int n)) else min (nat i) n)"

text \<open>\<open>text[start:end]\<close>\<close>

definition slice :: "string \<Rightarrow> int \<Rightarrow> int \<Rightarrow> string" where
  "slice text start end =
     (let s = adjust_index (length text) start; e = adjust_index (length text) end
      in take (e - s) (drop s text))"

text \<open>\<open>text.rfind(c, start, end)\<close> for a one-character needle: the highest position in
  the adjusted range that holds \<open>c\<close>, or \<open>-1\<close>.\<close>

definition rfind :: "string \<Rightarrow> char \<Rightarrow> int \<Rightarrow> int \<Rightarrow> int" where
  "rfind text c start end =
     (let s = adjust_index (length text) start; e = adjust_index (length text) end
      in case filter (\<lambda>i. text ! i = c) (rev [s..<e]) of
           [] \<Rightarrow> - 1
         | i # _ \<Rightarrow> int i)"

text \<open>\<open>str.isspace\<close> on the characters below 256, and \<open>str.strip()\<close>.\<close>

definition isspace :: "char \<Rightarrow> bool" where
  "isspace c = (of_char c \<in> {9, 10, 11, 12, 13, 28, 29, 30, 31, 32, 133, 160 :: nat})"

definition strip :: "string \<Rightarrow> string" where
  "strip s = rev (dropWhile isspace (rev (dropWhile isspace s)))"

text \<open>
  The \<open>while start < len(text)\<close> loop of \<open>chunk_text\<close>, with its two loop variables
  \<open>start\<close> and \<open>chunks\<close>. Nothing in the source bounds the number of iterations, so the
  loop is a partial function: \<open>None\<close> stands for a loop that never exits.
\<close>

partial_function (option) chunk_loop ::
  "string \<Rightarrow> int \<Rightarrow> int \<Rightarrow> int \<Rightarrow> string list \<Rightarrow> string list option" where
  "chunk_loop text chunk_size overlap start chunks =
     (if start < int (length text) then
        (let end0 = start + chunk_size;
             end1 = (if end0 < int (length text) then
                       (let last_period = rfind text (CHR ''.'') start end0;
                            last_newline = rfind text (CHR 0x0A) start end0;
                            break_point = max last_period last_newline
                        in if break_point > start + chunk_size - overlap
                           then break_point + 1 else end0)
                     else end0);
             chunk = strip (slice text start end1);
             chunks1 = (if chunk \<noteq> [] then chunks @ [chunk] else chunks)
         in chunk_loop text chunk_size overlap (end1 - overlap) chunks1)
      else Some chunks)"

declare chunk_loop.simps [code]

definition chunk_text :: "string \<Rightarrow> int \<Rightarrow> int \<Rightarrow> string list option" where
  "chunk_text text chunk_size overlap = chunk_loop text chunk_size overlap 0 []"

text \<open>The value of \<open>end\<close> when the window starting at \<open>start\<close> is cut: the name the
  proofs use for the first half of the loop body.\<close>

definition window_end :: "string \<Rightarrow> int \<Rightarrow> int \<Rightarrow> int \<Rightarrow> int" where
  "window_end text chunk_size overlap start =
     (let end0 = start + chunk_size
      in if end0 < int (length text) then
           (let last_period = rfind text (CHR ''.'') start end0;
                last_newline = rfind text (CHR 0x0A) start end0;
                break_point = max last_period last_newline
            in if break_point > start + chunk_size - overlap
               then break_point + 1 else end0)
         else end0)"

definition append_chunk :: "string list \<Rightarrow> string \<Rightarrow> string list" where
  "append_chunk chunks chunk = (if chunk \<noteq> [] then chunks @ [chunk] else chunks)"


section \<open>Credential store (db/models.py, db/database.py)\<close>

text \<open>
  An instant is a reading of \<open>datetime.utcnow()\<close>, counted in microseconds. A UUID is
  kept in the string form in which the tokens carry it; the column \<open>id\<close> of a user is
  the field \<open>uid\<close>.
\<close>

type_synonym uuid = string
type_synonym instant = nat

text \<open>
  The two libraries the service calls are idealised symbolically. A bcrypt hash is the
  pair of its salt and the bytes it hashed, which are the first 72 bytes of the UTF-8
  encoding of the password. A string that \<open>jwt.decode\<close> accepts under the service's
  key is the signed payload itself, with the four entries the service reads or writes;
  every other string is \<open>Unverifiable\<close>. Encoding with HS256 is deterministic, so equal
  payloads are equal strings, and distinct payloads are distinct strings.
\<close>

datatype bcrypt_hash = Bcrypt string string

record claims =
  sub :: "string option"
  email_claim :: "string option"
  exp :: "nat option"
  token_type :: "string option"

datatype jwt = Signed claims | Unverifiable string

text \<open>
  The length of a token string, which the \<open>String(255)\<close> columns bound. A signed token
  is the base64url text of the 27 bytes of its header, of its payload and of the 32 bytes
  of its signature, joined by two dots. The payload is the compact JSON text of the
  entries, written by \<open>json.dumps\<close> with \<open>ensure_ascii\<close>: a quote, a backslash and
  the five short escapes take two characters, every other control character and every
  character from 128 on takes six.
\<close>

definition json_char_len :: "char \<Rightarrow> nat" where
  "json_char_len c =
     (if of_char c \<in> {8, 9, 10, 12, 13, 34, 92 :: nat} then 2
      else if (of_char c :: nat) < 32 \<or> 128 \<le> (of_char c :: nat) then 6
      else 1)"

definition json_string_len :: "string \<Rightarrow> nat" where
  "json_string_len s = 2 + sum_list (map json_char_len s)"

fun digits :: "nat \<Rightarrow> nat" where
  "digits n = (if n < 10 then 1 else Suc (digits (n div 10)))"

definition payload_len :: "claims \<Rightarrow> nat" where
  "payload_len payload =
     (let entries =
            (case sub payload of None \<Rightarrow> [] | Some s \<Rightarrow> [6 + json_string_len s]) @
            (case email_claim payload of None \<Rightarrow> [] | Some s \<Rightarrow> [8 + json_string_len s]) @
            (case exp payload of None \<Rightarrow> [] | Some n \<Rightarrow> [6 + digits n]) @
            (case token_type payload of None \<Rightarrow> [] | Some s \<Rightarrow> [7 + json_string_len s])
      in 2 + sum_list entries + (length entries - 1))"

definition b64_len :: "nat \<Rightarrow> nat" where
  "b64_len n = (4 * n + 2) div 3"

definition jwt_length :: "jwt \<Rightarrow> nat" where
  "jwt_length tok =
     (case tok of
        Signed payload \<Rightarrow> b64_len 27 + 1 + b64_len (payload_len payload) + 1 + b64_len 32
      | Unverifiable s \<Rightarrow> length s)"

record user =
  uid :: uuid
  email :: string
  email_verified :: bool
  encrypted_password :: bcrypt_hash
  created_at :: instant
  updated_at :: instant
  metadata :: "(string \<times> string) list"

text \<open>
  \<open>Session\<close> and \<open>RefreshToken\<close> have the same columns; one record serves both
  tables. The surrogate key and \<open>created_at\<close> of these rows are never read: a row is
  identified by its place in its table.
\<close>

record token_row =
  user_id :: uuid
  token :: jwt
  expires_at :: instant

record tables =
  users :: "user list"
  sessions :: "token_row list"
  refresh_tokens :: "token_row list"

text \<open>
  A SQLAlchemy session: the committed tables its queries read (\<open>autoflush=False\<close>), the
  changes registered by \<open>db.add\<close> and \<open>db.delete\<close> and not yet flushed, and how the
  storage server will answer the coming round trips of the request, counted from its
  first commit: every commit, and every SELECT that loads an object again after a commit
  (\<open>True\<close>: the server is reachable and answers; an exhausted list stands for a server
  that stays reachable). A fault before the first commit of a request leaves nothing
  behind and is not listed.
\<close>

datatype change =
    AddUser user
  | AddSession token_row
  | AddRefreshToken token_row
  | DeleteSession token_row
  | DeleteRefreshToken token_row

record dbsession =
  database :: tables
  pending :: "change list"
  outcomes :: "bool list"

datatype exn =
    HTTPException nat string "(string \<times> string) list"
  | IntegrityError
  | DataError
  | OperationalError
  | ValueError

definition db_add :: "change \<Rightarrow> dbsession \<Rightarrow> dbsession" where
  "db_add c db = db\<lparr>pending := pending db @ [c]\<rparr>"

text \<open>
  A flush issues the INSERTs in the order of registration and then the DELETEs (the two
  token tables do not depend on each other; when both rows of a pair are refused, the
  order decides only which refusal is reported). An INSERT
  is refused with \<open>DataError\<close> when a value is longer than its \<open>String(255)\<close> column
  (\<open>users.email\<close>, \<open>sessions.token\<close>, \<open>refresh_tokens.token\<close>; a bcrypt hash has 60
  characters and always fits \<open>users.encrypted_password\<close>), and with \<open>IntegrityError\<close>
  when it repeats a value of a \<open>unique=True\<close> column (the same three) or a primary key.
\<close>

fun insert_row :: "change \<Rightarrow> tables \<Rightarrow> exn + tables" where
  "insert_row (AddUser u) t =
     (if length (email u) > 255 then Inl DataError
      else if uid u \<in> set (map uid (users t)) \<or> email u \<in> set (map email (users t))
      then Inl IntegrityError else Inr (t\<lparr>users := users t @ [u]\<rparr>))"
| "insert_row (AddSession r) t =
     (if jwt_length (token r) > 255 then Inl DataError
      else if token r \<in> set (map token (sessions t))
      then Inl IntegrityError else Inr (t\<lparr>sessions := sessions t @ [r]\<rparr>))"
| "insert_row (AddRefreshToken r) t =
     (if jwt_length (token r) > 255 then Inl DataError
      else if token r \<in> set (map token (refresh_tokens t))
      then Inl IntegrityError else Inr (t\<lparr>refresh_tokens := refresh_tokens t @ [r]\<rparr>))"
| "insert_row (DeleteSession r) t = Inr t"
| "insert_row (DeleteRefreshToken r) t = Inr t"

fun insert_rows :: "change list \<Rightarrow> tables \<Rightarrow> exn + tables" where
  "insert_rows [] t = Inr t"
| "insert_rows (c # cs) t =
     (case insert_row c t of Inl err \<Rightarrow> Inl err | Inr t' \<Rightarrow> insert_rows cs t')"

fun delete_row :: "change \<Rightarrow> tables \<Rightarrow> tables" where
  "delete_row (DeleteSession r) t = t\<lparr>sessions := remove1 r (sessions t)\<rparr>"
| "delete_row (DeleteRefreshToken r) t = t\<lparr>refresh_tokens := remove1 r (refresh_tokens t)\<rparr>"
| "delete_row (AddUser u) t = t"
| "delete_row (AddSession r) t = t"
| "delete_row (AddRefreshToken r) t = t"

definition flush :: "tables \<Rightarrow> change list \<Rightarrow> exn + tables" where
  "flush t cs =
     (case insert_rows cs t of Inl err \<Rightarrow> Inl err | Inr t' \<Rightarrow> Inr (fold delete_row cs t'))"

text \<open>
  \<open>db.commit()\<close>: all pending changes become visible, or the commit raises and none
  does.
\<close>

definition commit :: "dbsession \<Rightarrow> (exn + unit) \<times> dbsession" where
  "commit db =
     (let ok = (case outcomes db of [] \<Rightarrow> True | b # _ \<Rightarrow> b);
          db1 = db\<lparr>outcomes := tl (outcomes db)\<rparr>
      in if \<not> ok then (Inl OperationalError, db1)
         else case flush (database db) (pending db) of
                Inl err \<Rightarrow> (Inl err, db1)
              | Inr t \<Rightarrow> (Inr (), db1\<lparr>database := t, pending := []\<rparr>))"

text \<open>
  A commit expires every object of the session (\<open>expire_on_commit\<close> is left at its
  default), so \<open>db.refresh(user)\<close> and the first read of an attribute of \<open>user\<close> after
  a commit are a SELECT of their own: a round trip that can raise, with what the commit
  wrote already visible.
\<close>

definition db_load :: "dbsession \<Rightarrow> (exn + unit) \<times> dbsession" where
  "db_load db =
     (let ok = (case outcomes db of [] \<Rightarrow> True | b # _ \<Rightarrow> b);
          db1 = db\<lparr>outcomes := tl (outcomes db)\<rparr>
      in if \<not> ok then (Inl OperationalError, db1) else (Inr (), db1))"

section \<open>Token codec and password hashing (auth/auth.py)\<close>

definition ACCESS_TOKEN_EXPIRE_MINUTES :: nat where
  "ACCESS_TOKEN_EXPIRE_MINUTES = 7 * 24 * 60"

definition REFRESH_TOKEN_EXPIRE_DAYS :: nat where
  "REFRESH_TOKEN_EXPIRE_DAYS = 30"

text \<open>\<open>timedelta(minutes=m)\<close> and \<open>timedelta(days=d)\<close>, in microseconds.\<close>

definition minutes :: "nat \<Rightarrow> nat" where
  "minutes m = m * 60 * 1000000"

definition days :: "nat \<Rightarrow> nat" where
  "days d = d * 86400 * 1000000"

text \<open>
  The codec writes \<open>exp\<close> as whole seconds since the epoch (\<open>timegm\<close> of the datetime)
  and, on decoding at instant \<open>now\<close>, rejects a payload whose \<open>exp\<close> is below the
  current whole second.
\<close>

definition timegm :: "instant \<Rightarrow> nat" where
  "timegm t = t div 1000000"

definition jwt_encode :: "claims \<Rightarrow> jwt" where
  "jwt_encode payload = Signed payload"

definition jwt_decode :: "instant \<Rightarrow> jwt \<Rightarrow> claims option" where
  "jwt_decode now tok =
     (case tok of
        Unverifiable s \<Rightarrow> None
      | Signed payload \<Rightarrow>
          (case exp payload of
             None \<Rightarrow> Some payload
           | Some e \<Rightarrow> if e < timegm now then None else Some payload))"

text \<open>
  \<open>pwd_context.verify\<close> and \<open>pwd_context.hash\<close> first validate the secret: a secret of
  more than 4096 characters, or of more than 4096 bytes once encoded, or holding a NUL,
  raises a \<open>ValueError\<close>. bcrypt then reads the first 72 bytes of the encoded secret.
\<close>

definition utf8 :: "string \<Rightarrow> string" where
  "utf8 s =
     concat (map (\<lambda>c. if (of_char c :: nat) < 128 then [c]
                       else [char_of (192 + (of_char c :: nat) div 64),
                             char_of (128 + (of_char c :: nat) mod 64)]) s)"

definition MAX_PASSWORD_SIZE :: nat where
  "MAX_PASSWORD_SIZE = 4096"

definition secret_refused :: "string \<Rightarrow> bool" where
  "secret_refused secret \<longleftrightarrow>
     length secret > MAX_PASSWORD_SIZE \<or> length (utf8 secret) > MAX_PASSWORD_SIZE \<or>
     CHR 0x00 \<in> set (utf8 secret)"

definition verify_password :: "string \<Rightarrow> bcrypt_hash \<Rightarrow> exn + bool" where
  "verify_password plain_password hashed_password =
     (if secret_refused plain_password then Inl ValueError
      else Inr (case hashed_password of
                  Bcrypt salt digest \<Rightarrow> digest = take 72 (utf8 plain_password)))"

definition get_password_hash :: "string \<Rightarrow> string \<Rightarrow> exn + bcrypt_hash" where
  "get_password_hash salt password =
     (if secret_refused password then Inl ValueError
      else Inr (Bcrypt salt (take 72 (utf8 password))))"

text \<open>
  What a request is served with: the reading of the clock (the few readings one request
  takes are one instant here), the random UUID and salt drawn for a new user, and the
  answers of the storage server to the round trips of the request from its first commit
  on.
\<close>

record env =
  now :: instant
  uuid4 :: uuid
  gensalt :: string
  answers :: "bool list"

definition create_access_token :: "env \<Rightarrow> claims \<Rightarrow> nat option \<Rightarrow> jwt" where
  "create_access_token e data expires_delta =
     (let expire = (case expires_delta of
                      Some d \<Rightarrow> if d \<noteq> 0 then now e + d
                                else now e + minutes ACCESS_TOKEN_EXPIRE_MINUTES
                    | None \<Rightarrow> now e + minutes ACCESS_TOKEN_EXPIRE_MINUTES)
      in jwt_encode (data\<lparr>exp := Some (timegm expire), token_type := Some ''access''\<rparr>))"

definition create_refresh_token :: "env \<Rightarrow> claims \<Rightarrow> jwt" where
  "create_refresh_token e data =
     (let expire = now e + days REFRESH_TOKEN_EXPIRE_DAYS
      in jwt_encode (data\<lparr>exp := Some (timegm expire), token_type := Some ''refresh''\<rparr>))"

definition decode_token :: "env \<Rightarrow> jwt \<Rightarrow> exn + claims" where
  "decode_token e tok =
     (case jwt_decode (now e) tok of
        Some payload \<Rightarrow> Inr payload
      | None \<Rightarrow> Inl (HTTPException 401 ''Could not validate credentials''
                      [(''WWW-Authenticate'', ''Bearer'')]))"

section \<open>Auth service (auth/auth.py, class AuthService)\<close>

text \<open>
  Every operation returns its result, or the exception it raises, together with the
  session as it leaves it: what an earlier commit of the same request made visible stays
  visible when a later statement raises.
\<close>

definition create_user ::
  "env \<Rightarrow> dbsession \<Rightarrow> string \<Rightarrow> string \<Rightarrow> (string \<times> string) list option
     \<Rightarrow> (exn + user) \<times> dbsession" where
  "create_user e db email' password metadata' =
     (case find (\<lambda>u. email u = email') (users (database db)) of
        Some existing_user \<Rightarrow> (Inl (HTTPException 400 ''User already exists'' []), db)
      | None \<Rightarrow>
          (case get_password_hash (gensalt e) password of
             Inl err \<Rightarrow> (Inl err, db)
           | Inr hashed_password \<Rightarrow>
               (let user = \<lparr>uid = uuid4 e, email = email', email_verified = False,
                             encrypted_password = hashed_password,
                             created_at = now e, updated_at = now e,
                             metadata = (case metadata' of None \<Rightarrow> [] | Some m \<Rightarrow> m)\<rparr>
                in case commit (db_add (AddUser user) db) of
                     (Inl err, db') \<Rightarrow> (Inl err, db')
                   | (Inr _, db') \<Rightarrow>
                       (case db_load db' of
                          (Inl err, db'') \<Rightarrow> (Inl err, db'')
                        | (Inr _, db'') \<Rightarrow> (Inr user, db'')))))"

definition authenticate_user ::
  "dbsession \<Rightarrow> string \<Rightarrow> string \<Rightarrow> exn + user option" where
  "authenticate_user db email' password =
     (case find (\<lambda>u. email u = email') (users (database db)) of
        None \<Rightarrow> Inr None
      | Some user \<Rightarrow>
          (case verify_password password (encrypted_password user) of
             Inl err \<Rightarrow> Inl err
           | Inr verified \<Rightarrow> if \<not> verified then Inr None else Inr (Some user)))"

text \<open>The dictionary \<open>create_session\<close> returns: the public columns of the user and the
  two tokens (its key \<open>token\<close> is the field \<open>access\<close>).\<close>

record session_data =
  user_view :: "uuid \<times> string \<times> bool \<times> instant \<times> instant \<times> (string \<times> string) list"
  access :: jwt
  refreshToken :: jwt

definition user_dict ::
  "user \<Rightarrow> uuid \<times> string \<times> bool \<times> instant \<times> instant \<times> (string \<times> string) list" where
  "user_dict u = (uid u, email u, email_verified u, created_at u, updated_at u, metadata u)"

definition create_session :: "env \<Rightarrow> dbsession \<Rightarrow> user \<Rightarrow> (exn + session_data) \<times> dbsession" where
  "create_session e db user =
     (let data = \<lparr>sub = Some (uid user), email_claim = Some (email user),
                   exp = None, token_type = None\<rparr>;
          access_token = create_access_token e data None;
          refresh_token = create_refresh_token e data;
          access_expires = now e + minutes ACCESS_TOKEN_EXPIRE_MINUTES;
          refresh_expires = now e + days REFRESH_TOKEN_EXPIRE_DAYS;
          db_session = \<lparr>user_id = uid user, token = access_token,
                         expires_at = access_expires\<rparr>;
          db1 = db_add (AddSession db_session) db;
          db_refresh = \<lparr>user_id = uid user, token = refresh_token,
                         expires_at = refresh_expires\<rparr>;
          db2 = db_add (AddRefreshToken db_refresh) db1
      in case commit db2 of
           (Inl err, db') \<Rightarrow> (Inl err, db')
         | (Inr _, db') \<Rightarrow>
             (case db_load db' of
                (Inl err, db'') \<Rightarrow> (Inl err, db'')
              | (Inr _, db'') \<Rightarrow>
                  (Inr \<lparr>user_view = user_dict user, access = access_token,
                         refreshToken = refresh_token\<rparr>, db'')))"

definition get_current_user :: "env \<Rightarrow> dbsession \<Rightarrow> jwt \<Rightarrow> exn + user" where
  "get_current_user e db tok =
     (case decode_token e tok of
        Inl err \<Rightarrow> Inl err
      | Inr payload \<Rightarrow>
          (case sub payload of
             None \<Rightarrow> Inl (HTTPException 401 ''Could not validate credentials'' [])
           | Some user_id' \<Rightarrow>
               (case find (\<lambda>s. token s = tok \<and> expires_at s > now e)
                       (sessions (database db)) of
                  None \<Rightarrow> Inl (HTTPException 401 ''Session expired or invalid'' [])
                | Some session \<Rightarrow>
                    (case find (\<lambda>u. uid u = user_id') (users (database db)) of
                       None \<Rightarrow> Inl (HTTPException 404 ''User not found'' [])
                     | Some user \<Rightarrow> Inr user))))"

definition refresh_access_token ::
  "env \<Rightarrow> dbsession \<Rightarrow> jwt \<Rightarrow> (exn + session_data) \<times> dbsession" where
  "refresh_access_token e db refresh_token =
     (case decode_token e refresh_token of
        Inl err \<Rightarrow> (Inl err, db)
      | Inr payload \<Rightarrow>
          if token_type payload \<noteq> Some ''refresh''
          then (Inl (HTTPException 401 ''Invalid token type'' []), db)
          else
            (case find (\<lambda>r. token r = refresh_token \<and> expires_at r > now e)
                    (refresh_tokens (database db)) of
               None \<Rightarrow> (Inl (HTTPException 401 ''Invalid or expired refresh token'' []), db)
             | Some db_refresh \<Rightarrow>
                 (case find (\<lambda>u. Some (uid u) = sub payload) (users (database db)) of
                    None \<Rightarrow> (Inl (HTTPException 404 ''User not found'' []), db)
                  | Some user \<Rightarrow>
                      create_session e (db_add (DeleteRefreshToken db_refresh) db) user)))"

definition logout :: "dbsession \<Rightarrow> jwt \<Rightarrow> (exn + unit) \<times> dbsession" where
  "logout db tok =
     (case find (\<lambda>s. token s = tok) (sessions (database db)) of
        None \<Rightarrow> (Inr (), db)
      | Some session \<Rightarrow> commit (db_add (DeleteSession session) db))"

section \<open>Routes (routes/auth\_routes.py)\<close>

text \<open>
  \<open>get_db\<close> opens a session on the stored tables for one request and closes it
  afterwards; closing discards whatever was registered and not committed.
\<close>

definition get_db :: "env \<Rightarrow> tables \<Rightarrow> dbsession" where
  "get_db e t = \<lparr>database = t, pending = [], outcomes = answers e\<rparr>"

text \<open>\<open>except HTTPException: raise\<close>, \<open>except Exception as e: raise HTTPException(500, str(e))\<close>\<close>

definition str_exn :: "exn \<Rightarrow> string" where
  "str_exn x = (case x of
                  HTTPException s d h \<Rightarrow> d
                | IntegrityError \<Rightarrow> ''IntegrityError''
                | DataError \<Rightarrow> ''DataError''
                | OperationalError \<Rightarrow> ''OperationalError''
                | ValueError \<Rightarrow> ''ValueError'')"

definition reraise :: "exn \<Rightarrow> exn" where
  "reraise x = (case x of
                  HTTPException s d h \<Rightarrow> HTTPException s d h
                | _ \<Rightarrow> HTTPException 500 (str_exn x) [])"

definition sign_up ::
  "env \<Rightarrow> tables \<Rightarrow> string \<Rightarrow> string \<Rightarrow> (string \<times> string) list option
     \<Rightarrow> (exn + session_data) \<times> tables" where
  "sign_up e t email' password metadata' =
     (case create_user e (get_db e t) email' password metadata' of
        (Inl err, db) \<Rightarrow> (Inl (reraise err), database db)
      | (Inr user, db) \<Rightarrow>
          (case create_session e db user of
             (Inl err, db') \<Rightarrow> (Inl (reraise err), database db')
           | (Inr session_data, db') \<Rightarrow> (Inr session_data, database db')))"

definition sign_in ::
  "env \<Rightarrow> tables \<Rightarrow> string \<Rightarrow> string \<Rightarrow> (exn + session_data) \<times> tables" where
  "sign_in e t email' password =
     (case authenticate_user (get_db e t) email' password of
        Inl err \<Rightarrow> (Inl err, t)
      | Inr None \<Rightarrow> (Inl (HTTPException 401 ''Invalid credentials''
                            [(''WWW-Authenticate'', ''Bearer'')]), t)
      | Inr (Some user) \<Rightarrow>
          (case create_session e (get_db e t) user of
             (r, db') \<Rightarrow> (r, database db')))"

definition sign_out :: "env \<Rightarrow> tables \<Rightarrow> jwt \<Rightarrow> (exn + string) \<times> tables" where
  "sign_out e t credentials =
     (case logout (get_db e t) credentials of
        (Inl err, db') \<Rightarrow> (Inl err, database db')
      | (Inr _, db') \<Rightarrow> (Inr ''Successfully signed out'', database db'))"

definition validate_session ::
  "env \<Rightarrow> tables \<Rightarrow> jwt
     \<Rightarrow> exn + uuid \<times> string \<times> bool \<times> instant \<times> instant \<times> (string \<times> string) list" where
  "validate_session e t credentials =
     (case get_current_user e (get_db e t) credentials of
        Inl err \<Rightarrow> Inl err
      | Inr current_user \<Rightarrow> Inr (user_dict current_user))"

definition refresh_token ::
  "env \<Rightarrow> tables \<Rightarrow> jwt \<Rightarrow> (exn + session_data) \<times> tables" where
  "refresh_token e t refreshToken' =
     (case refresh_access_token e (get_db e t) refreshToken' of
        (Inl err, db') \<Rightarrow> (Inl (reraise err), database db')
      | (Inr session_data, db') \<Rightarrow> (Inr session_data, database db'))"

text \<open>The status the client sees: an exception that is not an \<open>HTTPException\<close> leaves
  the route unhandled and is answered with 500.\<close>

definition http_status :: "exn \<Rightarrow> nat" where
  "http_status x = (case x of HTTPException s d h \<Rightarrow> s | _ \<Rightarrow> 500)"

text \<open>Names the proofs use: the two rows \<open>create_session\<close> registers for a user, and a
  storage server that answers every round trip of the request.\<close>

definition token_data :: "user \<Rightarrow> claims" where
  "token_data user = \<lparr>sub = Some (uid user), email_claim = Some (email user),
                       exp = None, token_type = None\<rparr>"

definition session_row :: "env \<Rightarrow> user \<Rightarrow> token_row" where
  "session_row e user =
     \<lparr>user_id = uid user, token = create_access_token e (token_data user) None,
      expires_at = now e + minutes ACCESS_TOKEN_EXPIRE_MINUTES\<rparr>"

definition refresh_row :: "env \<Rightarrow> user \<Rightarrow> token_row" where
  "refresh_row e user =
     \<lparr>user_id = uid user, token = create_refresh_token e (token_data user),
      expires_at = now e + days REFRESH_TOKEN_EXPIRE_DAYS\<rparr>"

definition storage_accepts :: "env \<Rightarrow> bool" where
  "storage_accepts e = list_all (\<lambda>b. b) (answers e)"

text \<open>The storage server answers the round trip that follows \<open>n\<close> earlier ones of the
  request.\<close>

definition answer_ok :: "nat \<Rightarrow> env \<Rightarrow> bool" where
  "answer_ok n e = (case drop n (answers e) of [] \<Rightarrow> True | b # _ \<Rightarrow> b)"

text \<open>More names for the proofs: the user row \<open>create_user\<close> builds, the dictionary
  \<open>create_session\<close> returns, the refusal of the pair of rows by a unique constraint,
  their fitting the columns, and the exception, if any, with which the flush of the pair
  is refused.\<close>

definition new_user :: "env \<Rightarrow> string \<Rightarrow> string \<Rightarrow> (string \<times> string) list option \<Rightarrow> user" where
  "new_user e em pw md =
     \<lparr>uid = uuid4 e, email = em, email_verified = False,
      encrypted_password = Bcrypt (gensalt e) (take 72 (utf8 pw)),
      created_at = now e, updated_at = now e,
      metadata = (case md of None \<Rightarrow> [] | Some m \<Rightarrow> m)\<rparr>"

definition issued :: "env \<Rightarrow> user \<Rightarrow> session_data" where
  "issued e user = \<lparr>user_view = user_dict user, access = token (session_row e user),
                     refreshToken = token (refresh_row e user)\<rparr>"

definition collides :: "env \<Rightarrow> user \<Rightarrow> tables \<Rightarrow> bool" where
  "collides e user t \<longleftrightarrow>
     token (session_row e user) \<in> set (map token (sessions t)) \<or>
     token (refresh_row e user) \<in> set (map token (refresh_tokens t))"

definition fits :: "env \<Rightarrow> user \<Rightarrow> bool" where
  "fits e user \<longleftrightarrow>
     jwt_length (token (session_row e user)) \<le> 255 \<and>
     jwt_length (token (refresh_row e user)) \<le> 255"

definition refused :: "env \<Rightarrow> user \<Rightarrow> tables \<Rightarrow> exn option" where
  "refused e user t =
     (if jwt_length (token (session_row e user)) > 255 then Some DataError
      else if token (session_row e user) \<in> set (map token (sessions t))
      then Some IntegrityError
      else if jwt_length (token (refresh_row e user)) > 255 then Some DataError
      else if token (refresh_row e user) \<in> set (map token (refresh_tokens t))
      then Some IntegrityError
      else None)"

text \<open>No stored token was issued to the user id \<open>i\<close>: what drawing a fresh random UUID
  for a new user provides.\<close>

definition unused_uuid :: "uuid \<Rightarrow> tables \<Rightarrow> bool" where
  "unused_uuid i t \<longleftrightarrow>
     list_all (\<lambda>row. case token row of Signed c \<Rightarrow> sub c \<noteq> Some i | Unverifiable s \<Rightarrow> True)
       (sessions t @ refresh_tokens t)"

section \<open>Example data\<close>

text \<open>
  A sign-up served at 1700000000.0 seconds on empty tables, a later instant within the
  same second, one in the following second, and one a second after the access token has
  expired.
\<close>

definition at_signup :: env where
  "at_signup = \<lparr>now = 1700000000000000, uuid4 = ''7d444840'', gensalt = ''N9qo8uLO'',
                 answers = []\<rparr>"

definition same_second :: env where
  "same_second = at_signup\<lparr>now := 1700000000300000\<rparr>"

definition next_second :: env where
  "next_second = at_signup\<lparr>now := 1700000001300000\<rparr>"

definition after_expiry :: env where
  "after_expiry = at_signup\<lparr>now := 1700604801000000\<rparr>"

definition no_rows :: tables where
  "no_rows = \<lparr>users = [], sessions = [], refresh_tokens = []\<rparr>"

definition alice :: user where
  "alice = new_user at_signup ''a@x.com'' ''pw1'' None"

definition signed_up :: tables where
  "signed_up = \<lparr>users = [alice], sessions = [session_row at_signup alice],
                  refresh_tokens = [refresh_row at_signup alice]\<rparr>"


section \<open>Similarity search (routes/vector\_routes.py)\<close>

text \<open>
  The rows of \<open>vectors.embeddings\<close>, with the columns the search reads (\<open>id\<close>,
  \<open>user_id\<close>, \<open>content\<close>, \<open>embedding\<close>, \<open>metadata\<close>); \<open>user_id\<close> and
  \<open>embedding\<close> may be NULL. The list is the table in the order in which the rows were
  stored.
\<close>

record 'v embedding_row =
  row_id :: uuid
  row_user_id :: "uuid option"
  content :: string
  embedding :: "'v option"
  row_metadata :: "(string \<times> string) list"

record 's search_request =
  query :: string
  limit :: int
  threshold :: 's

record 's search_result =
  result_id :: string
  result_content :: string
  result_metadata :: "(string \<times> string) list"
  distance :: 's

text \<open>
  What the route calls and does not compute itself: the embedding service, which returns
  a vector or raises; and the storage server, which is reachable or not, evaluates the
  operator \<open><=>\<close> of pgvector between a stored vector and the query vector as the cast
  \<open>::vector\<close> reads it, and puts the selected rows in the order of
  \<open>ORDER BY similarity DESC\<close>. A similarity is a number of the storage server, which
  compares numbers in a linear order; the route subtracts it from 1 once more.
\<close>

record ('v, 'q, 's) services =
  create_embedding :: "string \<Rightarrow> exn + 'q"
  server_answers :: bool
  cosine_distance :: "'v \<Rightarrow> 'q \<Rightarrow> 's"
  order_by_similarity_desc :: "('v embedding_row \<times> 's) list \<Rightarrow> ('v embedding_row \<times> 's) list"

text \<open>
  \<open>SELECT id, content, metadata, 1 - (embedding <=> :embedding::vector) as similarity\<close>:
  a row with no embedding has the similarity NULL, which no comparison accepts.
\<close>

definition select_similarity ::
  "('v, 'q, 's :: {linorder, minus, one}) services \<Rightarrow> 'q \<Rightarrow> 'v embedding_row list
     \<Rightarrow> ('v embedding_row \<times> 's) list" where
  "select_similarity sv query_embedding rows =
     List.map_filter
       (\<lambda>row. case embedding row of
                 None \<Rightarrow> None
               | Some v \<Rightarrow> Some (row, 1 - cosine_distance sv v query_embedding))
       rows"

text \<open>
  \<open>WHERE 1 - (embedding <=> :embedding::vector) > :threshold\<close>, with
  \<open>AND user_id = :user_id\<close> appended when there is a current user.
\<close>

definition where_clause ::
  "'s :: {linorder, minus, one} \<Rightarrow> user option \<Rightarrow> 'v embedding_row \<times> 's \<Rightarrow> bool" where
  "where_clause threshold' current_user =
     (\<lambda>(row, similarity).
        similarity > threshold' \<and>
        (case current_user of
           None \<Rightarrow> True
         | Some u \<Rightarrow> row_user_id row = Some (uid u)))"

definition qualifying ::
  "('v, 'q, 's :: {linorder, minus, one}) services \<Rightarrow> 'q \<Rightarrow> 'v embedding_row list
     \<Rightarrow> 's search_request \<Rightarrow> user option \<Rightarrow> ('v embedding_row \<times> 's) list" where
  "qualifying sv query_embedding rows request current_user =
     filter (where_clause (threshold request) current_user)
       (select_similarity sv query_embedding rows)"

definition format_result ::
  "'v embedding_row \<times> 's :: {linorder, minus, one} \<Rightarrow> 's search_result" where
  "format_result =
     (\<lambda>(row, similarity).
        \<lparr>result_id = row_id row, result_content = content row,
         result_metadata = row_metadata row, distance = 1 - similarity\<rparr>)"

text \<open>
  \<open>search_documents\<close>. The storage server refuses a \<open>LIMIT\<close> that is negative or
  does not fit a \<open>bigint\<close>.
\<close>

definition search_documents ::
  "('v, 'q, 's :: {linorder, minus, one}) services \<Rightarrow> 'v embedding_row list
     \<Rightarrow> 's search_request \<Rightarrow> user option \<Rightarrow> exn + 's search_result list" where
  "search_documents sv rows request current_user =
     (case create_embedding sv (query request) of
        Inl err \<Rightarrow> Inl err
      | Inr query_embedding \<Rightarrow>
          if \<not> server_answers sv then Inl OperationalError
          else if limit request < 0 \<or> limit request > 9223372036854775807 then Inl DataError
          else
            (let result = take (nat (limit request))
                            (order_by_similarity_desc sv
                               (qualifying sv query_embedding rows request current_user))
             in Inr (map format_result result)))"


text \<open>
  Two ways of sorting that conform: one keeps rows of equal similarity in the order of
  the table, one reverses them.
\<close>

definition stable_order :: "('a \<times> 's :: linorder) list \<Rightarrow> ('a \<times> 's) list" where
  "stable_order xs = rev (sort_key snd (rev xs))"


text \<open>
  The cosine distance of pgvector, on real numbers, and example data: a table of five
  rows, of which the first and the third have the same direction, the second lies at the
  threshold 0.8 exactly and the last has no embedding; an embedding service that answers
  every text with the vector \<open>[1, 0]\<close>.
\<close>

definition dot :: "real list \<Rightarrow> real list \<Rightarrow> real" where
  "dot a b = sum_list (map2 (\<lambda>x y. x * y) a b)"

definition vector_cosine_distance :: "real list \<Rightarrow> real list \<Rightarrow> real" where
  "vector_cosine_distance a b = 1 - dot a b / sqrt (dot a a * dot b b)"

definition example_rows :: "real list embedding_row list" where
  "example_rows =
     [\<lparr>row_id = ''e1'', row_user_id = Some ''7d444840'', content = ''alpha'',
       embedding = Some [24, 7], row_metadata = []\<rparr>,
      \<lparr>row_id = ''e2'', row_user_id = None, content = ''beta'',
       embedding = Some [4, 3], row_metadata = []\<rparr>,
      \<lparr>row_id = ''e3'', row_user_id = Some ''7d444840'', content = ''gamma'',
       embedding = Some [48, 14], row_metadata = []\<rparr>,
      \<lparr>row_id = ''e4'', row_user_id = Some ''1b9d6bcd'', content = ''delta'',
       embedding = Some [12, 5], row_metadata = []\<rparr>,
      \<lparr>row_id = ''e5'', row_user_id = Some ''7d444840'', content = ''epsilon'',
       embedding = None, row_metadata = []\<rparr>]"

definition example_services ::
  "((real list embedding_row \<times> real) list \<Rightarrow> (real list embedding_row \<times> real) list)
     \<Rightarrow> (real list, real list, real) services" where
  "example_services order_by =
     \<lparr>create_embedding = (\<lambda>text'. Inr [1, 0]), server_answers = True,
      cosine_distance = vector_cosine_distance, order_by_similarity_desc = order_by\<rparr>"

definition example_request :: "real search_request" where
  "example_request = \<lparr>query = ''first letters'', limit = 5, threshold = 0.8\<rparr>"


section \<open>Properties of the chunking engine\<close>

lemma chunk_loop_unfold:
  "chunk_loop text chunk_size overlap start chunks =
     (if start < int (length text) then
        chunk_loop text chunk_size overlap
          (window_end text chunk_size overlap start - overlap)
          (append_chunk chunks
             (strip (slice text start (window_end text chunk_size overlap start))))
      else Some chunks)"
  by (subst chunk_loop.simps) (simp add: window_end_def append_chunk_def Let_def)

subsection \<open>Bounds on the cut point\<close>

lemma rfind_less: "0 \<le> end \<Longrightarrow> rfind text c start end < end"
proof -
  assume e: "0 \<le> end"
  let ?s = "adjust_index (length text) start" and ?e = "adjust_index (length text) end"
  show ?thesis
  proof (cases "filter (\<lambda>i. text ! i = c) (rev [?s..<?e])")
    case Nil
    then show ?thesis using e by (simp add: rfind_def Let_def)
  next
    case (Cons i rest)
    then have "i \<in> set (filter (\<lambda>i. text ! i = c) (rev [?s..<?e]))" by simp
    then have "i < ?e" by simp
    moreover have "int ?e \<le> end" using e by (simp add: adjust_index_def)
    ultimately show ?thesis using Cons by (simp add: rfind_def Let_def)
  qed
qed

lemma rfind_absent: "c \<notin> set text \<Longrightarrow> rfind text c start end = - 1"
proof -
  assume a: "c \<notin> set text"
  let ?s = "adjust_index (length text) start" and ?e = "adjust_index (length text) end"
  have le: "?e \<le> length text" by (auto simp: adjust_index_def)
  have "filter (\<lambda>i. text ! i = c) (rev [?s..<?e]) = []"
    using a le by (auto simp: filter_empty_conv)
  then show ?thesis by (simp add: rfind_def Let_def)
qed

lemma window_end_cases:
  "window_end text cs ov start = start + cs \<or>
   (start + cs < int (length text) \<and> start + cs - ov + 2 \<le> window_end text cs ov start \<and>
    (0 \<le> start + cs \<longrightarrow> window_end text cs ov start \<le> start + cs))"
proof -
  have "rfind text (CHR ''.'') start (start + cs) < start + cs"
       "rfind text (CHR 0x0A) start (start + cs) < start + cs" if "0 \<le> start + cs"
    using that by (simp_all add: rfind_less)
  then show ?thesis
    by (auto simp: window_end_def Let_def max_def)
qed

lemma window_end_advance:
  assumes "overlap < chunk_size" and "2 * overlap \<le> chunk_size + 1"
  shows "start < window_end text chunk_size overlap start - overlap"
  using assms window_end_cases [of "text" chunk_size overlap start] by linarith

lemma chunk_loop_terminates:
  assumes "overlap < chunk_size" and "2 * overlap \<le> chunk_size + 1"
  shows "\<exists>r. chunk_loop text chunk_size overlap start chunks = Some r"
proof (induction "nat (int (length text) - start)" arbitrary: start chunks rule: less_induct)
  case less
  show ?case
  proof (cases "start < int (length text)")
    case False
    then show ?thesis by (subst chunk_loop_unfold) simp
  next
    case True
    let ?next = "window_end text chunk_size overlap start - overlap"
    have "start < ?next" using assms by (rule window_end_advance)
    with True have "nat (int (length text) - ?next) < nat (int (length text) - start)"
      by linarith
    from less [OF this] show ?thesis
      using True by (subst chunk_loop_unfold) simp
  qed
qed

lemma stuck_rfind:
  "rfind ''aa.aa'' (CHR ''.'') 0 4 = 2" "rfind ''aa.aa'' (CHR 0x0A) 0 4 = - 1"
  by code_simp+

lemma chunk_loop_stuck_aux:
  assumes "chunk_loop t cs ov start cks = Some y"
  shows "\<not> (t = ''aa.aa'' \<and> cs = 4 \<and> ov = 3 \<and> start = 0)"
proof (rule chunk_loop.raw_induct
    [where P = "\<lambda>t cs ov start cks y. \<not> (t = ''aa.aa'' \<and> cs = 4 \<and> ov = 3 \<and> start = 0)",
     OF _ assms])
  fix f :: "string \<Rightarrow> int \<Rightarrow> int \<Rightarrow> int \<Rightarrow> string list \<Rightarrow> string list option"
  fix t cs ov start cks y
  assume IH: "\<And>a b c d e z. f a b c d e = Some z \<Longrightarrow>
                 \<not> (a = ''aa.aa'' \<and> b = 4 \<and> c = 3 \<and> d = 0)"
  assume body: "(if start < int (length t) then
        (let end0 = start + cs;
             end1 = (if end0 < int (length t) then
                       (let last_period = rfind t (CHR ''.'') start end0;
                            last_newline = rfind t (CHR 0x0A) start end0;
                            break_point = max last_period last_newline
                        in if break_point > start + cs - ov
                           then break_point + 1 else end0)
                     else end0);
             chunk = strip (slice t start end1);
             chunks1 = (if chunk \<noteq> [] then cks @ [chunk] else cks)
         in f t cs ov (end1 - ov) chunks1)
      else Some cks) = Some y"
  show "\<not> (t = ''aa.aa'' \<and> cs = 4 \<and> ov = 3 \<and> start = 0)"
  proof
    assume eq: "t = ''aa.aa'' \<and> cs = 4 \<and> ov = 3 \<and> start = 0"
    have "\<exists>cks'. f ''aa.aa'' 4 3 0 cks' = Some y"
      using body eq by (auto simp: stuck_rfind Let_def)
    then obtain cks' where "f ''aa.aa'' 4 3 0 cks' = Some y" ..
    from IH [OF this] show False by simp
  qed
qed

lemma chunk_loop_stuck: "chunk_loop ''aa.aa'' 4 3 0 chunks = None"
  using chunk_loop_stuck_aux [of "''aa.aa''" 4 3 0 chunks] by (cases "chunk_loop ''aa.aa'' 4 3 0 chunks") auto

subsection \<open>The default parameters on a text of 2500 characters\<close>

lemma append_chunk_filter:
  "append_chunk chunks c = chunks @ filter (\<lambda>c. c \<noteq> []) [c]"
  by (simp add: append_chunk_def)

lemma strip_nonspace: "\<forall>c\<in>set s. \<not> isspace c \<Longrightarrow> strip s = s"
proof -
  assume a: "\<forall>c\<in>set s. \<not> isspace c"
  then have "dropWhile isspace s = s" by (cases s) auto
  moreover from a have "dropWhile isspace (rev s) = rev s" by (cases "rev s") auto
  ultimately show ?thesis by (simp add: strip_def)
qed

lemma window_end_2500:
  assumes "length text = 2500" and "0 \<le> start"
  shows "start + 802 \<le> window_end text 1000 200 start \<and>
         window_end text 1000 200 start \<le> start + 1000"
  using assms window_end_cases [of "text" 1000 200 start] by linarith

lemma chunk_text_four_windows:
  assumes len: "length text = 2500"
  defines "e1 \<equiv> window_end text 1000 200 0"
  defines "e2 \<equiv> window_end text 1000 200 (e1 - 200)"
  defines "e3 \<equiv> window_end text 1000 200 (e2 - 200)"
  shows "802 \<le> e1 \<and> e1 \<le> 1000 \<and> e1 + 602 \<le> e2 \<and> e2 \<le> e1 + 800 \<and>
         e2 + 602 \<le> e3 \<and> e3 \<le> e2 + 800 \<and>
         chunk_text text 1000 200 =
           Some (filter (\<lambda>c. c \<noteq> [])
                  (map strip [slice text 0 e1, slice text (e1 - 200) e2,
                              slice text (e2 - 200) e3, slice text (e3 - 200) (e3 + 800)]))"
proof -
  have b1: "802 \<le> e1 \<and> e1 \<le> 1000"
    using window_end_2500 [OF len, of 0] by (simp add: e1_def)
  then have b2: "e1 + 602 \<le> e2 \<and> e2 \<le> e1 + 800"
    using window_end_2500 [OF len, of "e1 - 200"] by (simp add: e2_def)
  with b1 have b3: "e2 + 602 \<le> e3 \<and> e3 \<le> e2 + 800"
    using window_end_2500 [OF len, of "e2 - 200"] by (simp add: e3_def)
  have e4: "window_end text 1000 200 (e3 - 200) = e3 + 800"
    using b1 b2 b3 window_end_cases [of "text" 1000 200 "e3 - 200"] len by linarith
  have s1: "chunk_loop text 1000 200 0 [] =
            chunk_loop text 1000 200 (e1 - 200) (append_chunk [] (strip (slice text 0 e1)))"
    using len by (subst chunk_loop_unfold) (simp add: e1_def)
  have s2: "chunk_loop text 1000 200 (e1 - 200) cs =
            chunk_loop text 1000 200 (e2 - 200)
              (append_chunk cs (strip (slice text (e1 - 200) e2)))" for cs
    using len b1 by (subst chunk_loop_unfold) (simp add: e2_def)
  have s3: "chunk_loop text 1000 200 (e2 - 200) cs =
            chunk_loop text 1000 200 (e3 - 200)
              (append_chunk cs (strip (slice text (e2 - 200) e3)))" for cs
    using len b1 b2 by (subst chunk_loop_unfold) (simp add: e3_def)
  have s4: "chunk_loop text 1000 200 (e3 - 200) cs =
            chunk_loop text 1000 200 (e3 + 800 - 200)
              (append_chunk cs (strip (slice text (e3 - 200) (e3 + 800))))" for cs
    using len b1 b2 b3 by (subst chunk_loop_unfold) (simp add: e4)
  have s5: "chunk_loop text 1000 200 (e3 + 800 - 200) cs = Some cs" for cs
    using len b1 b2 b3 by (subst chunk_loop_unfold) simp
  have "chunk_text text 1000 200 =
           Some (filter (\<lambda>c. c \<noteq> [])
                  (map strip [slice text 0 e1, slice text (e1 - 200) e2,
                              slice text (e2 - 200) e3, slice text (e3 - 200) (e3 + 800)]))"
    unfolding chunk_text_def s1 s2 s3 s4 s5 by (simp add: append_chunk_filter)
  with b1 b2 b3 show ?thesis by simp
qed

lemma window_end_replicate_a:
  "0 \<le> start \<Longrightarrow> window_end (replicate n (CHR ''a'')) 1000 200 start = start + 1000"
  by (simp add: window_end_def rfind_absent Let_def)

lemma slice_replicate:
  "0 \<le> s \<Longrightarrow> s \<le> e \<Longrightarrow> 
   slice (replicate n c) s e = replicate (min (nat e) n - nat s) c"
  by (auto simp: slice_def adjust_index_def Let_def min_def)

lemma chunk_2500_a:
  "chunk_text (replicate 2500 (CHR ''a'')) 1000 200 =
     Some [replicate 1000 (CHR ''a''), replicate 1000 (CHR ''a''),
           replicate 900 (CHR ''a''), replicate 100 (CHR ''a'')]"
proof -
  let ?R = "replicate 2500 (CHR ''a'')"
  have st: "strip (replicate n (CHR ''a'')) = replicate n (CHR ''a'')" for n
    by (rule strip_nonspace) (simp add: isspace_def)
  have u1: "chunk_loop ?R 1000 200 0 cks = chunk_loop ?R 1000 200 800 (cks @ [replicate 1000 (CHR ''a'')])" for cks
    by (subst chunk_loop_unfold) (simp add: window_end_replicate_a slice_replicate st append_chunk_def)
  have u2: "chunk_loop ?R 1000 200 800 cks = chunk_loop ?R 1000 200 1600 (cks @ [replicate 1000 (CHR ''a'')])" for cks
    by (subst chunk_loop_unfold) (simp add: window_end_replicate_a slice_replicate st append_chunk_def)
  have u3: "chunk_loop ?R 1000 200 1600 cks = chunk_loop ?R 1000 200 2400 (cks @ [replicate 900 (CHR ''a'')])" for cks
    by (subst chunk_loop_unfold) (simp add: window_end_replicate_a slice_replicate st append_chunk_def)
  have u4: "chunk_loop ?R 1000 200 2400 cks = chunk_loop ?R 1000 200 3200 (cks @ [replicate 100 (CHR ''a'')])" for cks
    by (subst chunk_loop_unfold) (simp add: window_end_replicate_a slice_replicate st append_chunk_def)
  have u5: "chunk_loop ?R 1000 200 3200 cks = Some cks" for cks
    by (subst chunk_loop_unfold) simp
  show ?thesis
    unfolding chunk_text_def u1 u2 u3 u4 u5 by simp
qed

lemma length_slice:
  "0 \<le> s \<Longrightarrow> 0 \<le> e \<Longrightarrow>
     length (slice text s e) = min (nat e) (length text) - nat s"
  unfolding slice_def adjust_index_def Let_def by simp

lemma set_slice: "set (slice text s e) \<subseteq> set text"
  by (auto simp: slice_def Let_def dest: in_set_takeD in_set_dropD)

subsection \<open>Termination of the chunking loop\<close>

text \<open>
  Claim C2, as the code has it. The spec promises termination whenever
  \<open>overlap < chunk_size\<close>. When the cut is moved back to a full stop or a newline the
  next start is \<open>break_point + 1 - overlap\<close>, which is only known to lie above
  \<open>start + chunk_size - 2 * overlap + 1\<close>. So the loop provably exits, with the start
  of the window strictly increasing at every iteration (moved cuts included), when in
  addition \<open>2 * overlap \<le> chunk_size + 1\<close>; the defaults 1000 and 200, the only
  values the repository calls \<open>chunk_text\<close> with, satisfy both.
\<close>

theorem chunk_text_terminates:
  assumes "overlap < chunk_size" and "2 * overlap \<le> chunk_size + 1"
  shows "(\<exists>chunks. chunk_text text chunk_size overlap = Some chunks) \<and>
         (\<forall>start. start < window_end text chunk_size overlap start - overlap)"
  using assms chunk_loop_terminates [OF assms] window_end_advance [OF assms]
  by (simp add: chunk_text_def)

theorem chunk_text_terminates_witness:
  "(200::int) < 1000 \<and> 2 * (200::int) \<le> 1000 + 1 \<and>
   (\<exists>chunks. chunk_text ''One. Two.'' 1000 200 = Some chunks) \<and>
   (\<forall>start. start < window_end ''One. Two.'' 1000 200 start - 200)"
  using chunk_text_terminates [of 200 1000 "''One. Two.''"] by simp

text \<open>
  Claim C2 as stated fails: with \<open>chunk_size = 4\<close> and \<open>overlap = 3\<close> the text
  \<open>aa.aa\<close> has its cut moved back to the full stop at position 2, the next start is
  \<open>3 - 3 = 0\<close> again, and the loop never exits.
\<close>

theorem chunk_text_diverges:
  "(3::int) < 4 \<and> chunk_text ''aa.aa'' 4 3 = None"
  by (simp add: chunk_text_def chunk_loop_stuck)

subsection \<open>The 2500-character scenario\<close>

text \<open>
  Claim C8, as the code has it. On every text of 2500 characters the defaults make the
  loop cut exactly four windows, each starting 200 characters before the end of the
  previous one; the result is the list of the trimmed windows with the empty ones dropped.
  Hence at most four chunks come back, none of them empty, and exactly four when the text
  holds no whitespace.
\<close>

theorem chunk_text_2500:
  assumes len: "length text = 2500"
  shows "\<exists>e1 e2 e3 chunks.
           802 \<le> e1 \<and> e1 \<le> 1000 \<and> e1 + 602 \<le> e2 \<and> e2 \<le> e1 + 800 \<and>
           e2 + 602 \<le> e3 \<and> e3 \<le> e2 + 800 \<and>
           chunks = filter (\<lambda>c. c \<noteq> [])
                      (map strip [slice text 0 e1, slice text (e1 - 200) e2,
                                  slice text (e2 - 200) e3, slice text (e3 - 200) (e3 + 800)]) \<and>
           chunk_text text 1000 200 = Some chunks \<and>
           length chunks \<le> 4 \<and> [] \<notin> set chunks \<and>
           ((\<forall>c\<in>set text. \<not> isspace c) \<longrightarrow> length chunks = 4)"
proof -
  define e1 where "e1 = window_end text 1000 200 0"
  define e2 where "e2 = window_end text 1000 200 (e1 - 200)"
  define e3 where "e3 = window_end text 1000 200 (e2 - 200)"
  define ws where "ws = [slice text 0 e1, slice text (e1 - 200) e2,
                         slice text (e2 - 200) e3, slice text (e3 - 200) (e3 + 800)]"
  define chunks where "chunks = filter (\<lambda>c. c \<noteq> []) (map strip ws)"
  have fw: "802 \<le> e1 \<and> e1 \<le> 1000 \<and> e1 + 602 \<le> e2 \<and> e2 \<le> e1 + 800 \<and>
         e2 + 602 \<le> e3 \<and> e3 \<le> e2 + 800 \<and> chunk_text text 1000 200 = Some chunks"
    using chunk_text_four_windows [OF len]
    unfolding e1_def e2_def e3_def chunks_def ws_def by simp
  have l4: "length chunks \<le> 4"
  proof -
    have "length chunks \<le> length (map strip ws)" unfolding chunks_def by (rule length_filter_le)
    then show ?thesis by (simp add: ws_def)
  qed
  have ne: "[] \<notin> set chunks" by (simp add: chunks_def)
  have full: "length chunks = 4" if ns: "\<forall>c\<in>set text. \<not> isspace c"
  proof -
    have id: "strip (slice text s e) = slice text s e" for s e
      using ns set_slice [of "text" s e] by (intro strip_nonspace) blast
    have "\<forall>w\<in>set ws. w \<noteq> []"
      using fw len by (auto simp: ws_def length_slice simp flip: length_greater_0_conv)
    then have "filter (\<lambda>c. c \<noteq> []) ws = ws" by (simp add: filter_id_conv)
    moreover have "map strip ws = ws" by (simp add: ws_def id)
    ultimately show ?thesis by (simp add: chunks_def) (simp add: ws_def)
  qed
  show ?thesis
    using fw l4 ne full unfolding chunks_def ws_def by blast
qed

theorem chunk_text_2500_witness:
  "length (replicate 2500 (CHR ''a'')) = 2500 \<and>
   (\<exists>e1 e2 e3 chunks.
           802 \<le> e1 \<and> e1 \<le> 1000 \<and> e1 + 602 \<le> e2 \<and> e2 \<le> e1 + 800 \<and>
           e2 + 602 \<le> e3 \<and> e3 \<le> e2 + 800 \<and>
           chunks = filter (\<lambda>c. c \<noteq> [])
                      (map strip [slice (replicate 2500 (CHR ''a'')) 0 e1,
                                  slice (replicate 2500 (CHR ''a'')) (e1 - 200) e2,
                                  slice (replicate 2500 (CHR ''a'')) (e2 - 200) e3,
                                  slice (replicate 2500 (CHR ''a'')) (e3 - 200) (e3 + 800)]) \<and>
           chunk_text (replicate 2500 (CHR ''a'')) 1000 200 = Some chunks \<and>
           length chunks \<le> 4 \<and> [] \<notin> set chunks \<and>
           ((\<forall>c\<in>set (replicate 2500 (CHR ''a'')). \<not> isspace c) \<longrightarrow> length chunks = 4))"
proof -
  have h: "length (replicate 2500 (CHR ''a'')) = 2500" by simp
  from chunk_text_2500 [OF h] h show ?thesis by blast
qed

text \<open>
  Claim C8 as stated fails: a text of 2500 letters yields four chunks, of 1000, 1000, 900
  and 100 characters, not three.
\<close>

theorem chunk_text_2500_four_chunks:
  "length (replicate 2500 (CHR ''a'')) = 2500 \<and>
   chunk_text (replicate 2500 (CHR ''a'')) 1000 200 =
     Some [replicate 1000 (CHR ''a''), replicate 1000 (CHR ''a''),
           replicate 900 (CHR ''a''), replicate 100 (CHR ''a'')] \<and>
   length [replicate 1000 (CHR ''a''), replicate 1000 (CHR ''a''),
           replicate 900 (CHR ''a''), replicate 100 (CHR ''a'')] \<noteq> 3"
  by (simp add: chunk_2500_a)

section \<open>Properties of the auth service\<close>

subsection \<open>Queries\<close>

lemma find_None_set: "find P xs = None \<longleftrightarrow> (\<forall>x\<in>set xs. \<not> P x)"
  by (auto simp: find_None_iff)

lemma find_Some_set: "find P xs = Some x \<Longrightarrow> x \<in> set xs \<and> P x"
  by (auto simp: find_Some_iff)

lemma find_exists: "\<exists>x\<in>set xs. P x \<Longrightarrow> \<exists>y. find P xs = Some y"
  by (cases "find P xs") (auto simp: find_None_iff)

lemma get_current_user_decode_fails:
  "jwt_decode (now e) tok = None \<Longrightarrow>
   get_current_user e db tok =
     Inl (HTTPException 401 ''Could not validate credentials'' [(''WWW-Authenticate'', ''Bearer'')])"
  by (simp add: get_current_user_def decode_token_def)

lemma jwt_decode_expired:
  "exp payload = Some x \<Longrightarrow> x < timegm (now e) \<Longrightarrow> jwt_decode (now e) (Signed payload) = None"
  by (simp add: jwt_decode_def)

lemma get_current_user_no_session:
  "\<forall>s\<in>set (sessions (database db)). \<not> (token s = tok \<and> now e < expires_at s) \<Longrightarrow>
   \<exists>x. get_current_user e db tok = Inl x \<and> http_status x = 401"
proof -
  assume "\<forall>s\<in>set (sessions (database db)). \<not> (token s = tok \<and> now e < expires_at s)"
  then have "find (\<lambda>s. token s = tok \<and> now e < expires_at s) (sessions (database db)) = None"
    by (simp add: find_None_set)
  then show ?thesis
    by (simp add: get_current_user_def decode_token_def http_status_def
             split: option.splits)
qed

lemma get_current_user_found:
  assumes "jwt_decode (now e) tok = Some payload" and "sub payload = Some i"
    and "\<exists>s\<in>set (sessions (database db)). token s = tok \<and> now e < expires_at s"
  shows "get_current_user e db tok =
           (case find (\<lambda>u. uid u = i) (users (database db)) of
              None \<Rightarrow> Inl (HTTPException 404 ''User not found'' [])
            | Some u \<Rightarrow> Inr u)"
proof -
  obtain s where "find (\<lambda>s. token s = tok \<and> now e < expires_at s) (sessions (database db)) = Some s"
    using find_exists [OF assms(3)] by blast
  then show ?thesis using assms(1,2)
    by (simp add: get_current_user_def decode_token_def)
qed


lemma authenticate_user_unknown:
  "\<forall>u\<in>set (users t). email u \<noteq> em \<Longrightarrow> authenticate_user (get_db e t) em pw = Inr None"
proof -
  assume "\<forall>u\<in>set (users t). email u \<noteq> em"
  then have "find (\<lambda>u. email u = em) (users t) = None" by (simp add: find_None_set)
  then show ?thesis by (simp add: authenticate_user_def get_db_def)
qed

lemma authenticate_user_wrong:
  "find (\<lambda>u. email u = em) (users t) = Some u \<Longrightarrow>
   verify_password pw (encrypted_password u) = Inr False \<Longrightarrow>
   authenticate_user (get_db e t) em pw = Inr None"
  by (simp add: authenticate_user_def get_db_def)

lemma authenticate_user_raises:
  "find (\<lambda>u. email u = em) (users t) = Some u \<Longrightarrow> secret_refused pw \<Longrightarrow>
   authenticate_user (get_db e t) em pw = Inl ValueError"
  by (simp add: authenticate_user_def get_db_def verify_password_def)

lemma sign_in_rejected:
  "authenticate_user (get_db e t) em pw = Inr None \<Longrightarrow>
   sign_in e t em pw =
     (Inl (HTTPException 401 ''Invalid credentials'' [(''WWW-Authenticate'', ''Bearer'')]), t)"
  by (simp add: sign_in_def)

lemma sign_in_raises:
  "authenticate_user (get_db e t) em pw = Inl x \<Longrightarrow> sign_in e t em pw = (Inl x, t)"
  by (simp add: sign_in_def)


subsection \<open>Commits\<close>

lemma commit_database:
  "database (snd (commit db)) = database db \<or>
   (fst (commit db) = Inr () \<and> flush (database db) (pending db) = Inr (database (snd (commit db))))"
  by (auto simp: commit_def Let_def split: sum.splits)

lemma commit_raises_unchanged:
  "fst (commit db) = Inl x \<Longrightarrow> database (snd (commit db)) = database db"
  by (auto simp: commit_def Let_def split: sum.splits if_splits)

lemma flush_delete_session [simp]:
  "flush t [DeleteSession s] = Inr (t\<lparr>sessions := remove1 s (sessions t)\<rparr>)"
  by (simp add: flush_def)

lemma flush_add_user [simp]:
  "flush t [AddUser u] =
     (if length (email u) > 255 then Inl DataError
      else if uid u \<in> set (map uid (users t)) \<or> email u \<in> set (map email (users t))
      then Inl IntegrityError else Inr (t\<lparr>users := users t @ [u]\<rparr>))"
  by (simp add: flush_def)

lemma flush_session_pair [simp]:
  "flush t [AddSession (session_row e u), AddRefreshToken (refresh_row e u)] =
     (case refused e u t of
        Some err \<Rightarrow> Inl err
      | None \<Rightarrow> Inr (t\<lparr>sessions := sessions t @ [session_row e u],
                       refresh_tokens := refresh_tokens t @ [refresh_row e u]\<rparr>))"
  by (simp add: flush_def refused_def)

lemma flush_rotation [simp]:
  "flush t [DeleteRefreshToken old, AddSession (session_row e u), AddRefreshToken (refresh_row e u)] =
     (case refused e u t of
        Some err \<Rightarrow> Inl err
      | None \<Rightarrow> Inr (t\<lparr>sessions := sessions t @ [session_row e u],
                       refresh_tokens := remove1 old (refresh_tokens t @ [refresh_row e u])\<rparr>))"
  by (simp add: flush_def refused_def)

lemma refused_None: "refused e u t = None \<longleftrightarrow> fits e u \<and> \<not> collides e u t"
  by (auto simp: refused_def fits_def collides_def)

subsection \<open>Logout\<close>

lemma logout_unknown:
  "\<forall>s\<in>set (sessions t). token s \<noteq> tok \<Longrightarrow> logout (get_db e t) tok = (Inr (), get_db e t)"
proof -
  assume "\<forall>s\<in>set (sessions t). token s \<noteq> tok"
  then have "find (\<lambda>s. token s = tok) (sessions t) = None" by (simp add: find_None_set)
  then show ?thesis by (simp add: logout_def get_db_def)
qed

lemma remove1_distinct_token:
  assumes "distinct (map token rows)" and "s \<in> set rows"
  shows "\<forall>r\<in>set (remove1 s rows). token r \<noteq> token s"
proof
  fix r assume r: "r \<in> set (remove1 s rows)"
  from assms(1) have d: "distinct rows" by (simp add: distinct_map)
  with r have "r \<in> set rows" "r \<noteq> s" by auto
  with assms show "token r \<noteq> token s" by (auto simp: distinct_map inj_on_def)
qed

subsection \<open>The routes in closed form\<close>

lemma storage_accepts_answer_ok: "storage_accepts e \<Longrightarrow> answer_ok n e"
proof -
  assume "storage_accepts e"
  then have "\<forall>b\<in>set (answers e). b" by (simp add: storage_accepts_def list_all_iff)
  then have "\<forall>b\<in>set (drop n (answers e)). b" by (auto dest: in_set_dropD)
  then show ?thesis by (cases "drop n (answers e)") (auto simp: answer_ok_def)
qed

lemma answer_ok_0: "answer_ok 0 e = (case answers e of [] \<Rightarrow> True | b # _ \<Rightarrow> b)"
  by (simp add: answer_ok_def)

lemma answer_ok_tl:
  "(case drop n (answers e) of [] \<Rightarrow> True | b # _ \<Rightarrow> b) = answer_ok n e"
  by (simp add: answer_ok_def)

lemma tl_drop: "tl (drop n xs) = drop (Suc n) xs"
  by (simp add: drop_Suc drop_tl)

lemma create_session_unfold:
  "create_session e db user =
     (case commit (db\<lparr>pending := pending db @
                      [AddSession (session_row e user), AddRefreshToken (refresh_row e user)]\<rparr>) of
        (Inl err, db') \<Rightarrow> (Inl err, db')
      | (Inr _, db') \<Rightarrow>
          (case db_load db' of
             (Inl err, db'') \<Rightarrow> (Inl err, db'')
           | (Inr _, db'') \<Rightarrow> (Inr (issued e user), db'')))"
  by (simp add: create_session_def session_row_def refresh_row_def token_data_def db_add_def
                Let_def issued_def split: prod.splits sum.splits)

text \<open>The tables after the pair of rows of \<open>create_session\<close> has become visible.\<close>

lemma create_session_closed:
  "create_session e \<lparr>database = t, pending = [], outcomes = drop n (answers e')\<rparr> user =
     (if \<not> answer_ok n e'
      then (Inl OperationalError,
            \<lparr>database = t,
             pending = [AddSession (session_row e user), AddRefreshToken (refresh_row e user)],
             outcomes = drop (Suc n) (answers e')\<rparr>)
      else case refused e user t of
        Some err \<Rightarrow>
           (Inl err,
            \<lparr>database = t,
             pending = [AddSession (session_row e user), AddRefreshToken (refresh_row e user)],
             outcomes = drop (Suc n) (answers e')\<rparr>)
      | None \<Rightarrow>
          if \<not> answer_ok (Suc n) e'
          then (Inl OperationalError,
                \<lparr>database = t\<lparr>sessions := sessions t @ [session_row e user],
                               refresh_tokens := refresh_tokens t @ [refresh_row e user]\<rparr>,
                 pending = [], outcomes = drop (Suc (Suc n)) (answers e')\<rparr>)
          else (Inr (issued e user),
                \<lparr>database = t\<lparr>sessions := sessions t @ [session_row e user],
                               refresh_tokens := refresh_tokens t @ [refresh_row e user]\<rparr>,
                 pending = [], outcomes = drop (Suc (Suc n)) (answers e')\<rparr>))"
  by (simp add: create_session_unfold commit_def db_load_def Let_def answer_ok_tl tl_drop
           split: option.splits)

lemma sign_in_closed:
  "sign_in e t em pw =
     (case authenticate_user (get_db e t) em pw of
        Inl err \<Rightarrow> (Inl err, t)
      | Inr None \<Rightarrow> (Inl (HTTPException 401 ''Invalid credentials''
                            [(''WWW-Authenticate'', ''Bearer'')]), t)
      | Inr (Some user) \<Rightarrow>
          if \<not> answer_ok 0 e then (Inl OperationalError, t)
          else case refused e user t of
            Some err \<Rightarrow> (Inl err, t)
          | None \<Rightarrow>
              if \<not> answer_ok 1 e
              then (Inl OperationalError,
                    t\<lparr>sessions := sessions t @ [session_row e user],
                      refresh_tokens := refresh_tokens t @ [refresh_row e user]\<rparr>)
              else (Inr (issued e user),
                    t\<lparr>sessions := sessions t @ [session_row e user],
                      refresh_tokens := refresh_tokens t @ [refresh_row e user]\<rparr>))"
  using create_session_closed [of e t 0 e]
  by (simp add: sign_in_def get_db_def split: sum.splits option.splits)

lemma reraise_simps [simp]:
  "reraise (HTTPException s d h) = HTTPException s d h"
  "reraise IntegrityError = HTTPException 500 ''IntegrityError'' []"
  "reraise DataError = HTTPException 500 ''DataError'' []"
  "reraise OperationalError = HTTPException 500 ''OperationalError'' []"
  "reraise ValueError = HTTPException 500 ''ValueError'' []"
  by (simp_all add: reraise_def str_exn_def)

lemma create_session_rotation:
  "create_session e \<lparr>database = t, pending = [DeleteRefreshToken old],
                     outcomes = answers e'\<rparr> user =
     (if \<not> answer_ok 0 e'
      then (Inl OperationalError,
            \<lparr>database = t,
             pending = [DeleteRefreshToken old, AddSession (session_row e user),
                        AddRefreshToken (refresh_row e user)],
             outcomes = tl (answers e')\<rparr>)
      else case refused e user t of
        Some err \<Rightarrow>
           (Inl err,
            \<lparr>database = t,
             pending = [DeleteRefreshToken old, AddSession (session_row e user),
                        AddRefreshToken (refresh_row e user)],
             outcomes = tl (answers e')\<rparr>)
      | None \<Rightarrow>
          if \<not> answer_ok 1 e'
          then (Inl OperationalError,
                \<lparr>database = t\<lparr>sessions := sessions t @ [session_row e user],
                               refresh_tokens :=
                                 remove1 old (refresh_tokens t @ [refresh_row e user])\<rparr>,
                 pending = [], outcomes = tl (tl (answers e'))\<rparr>)
          else (Inr (issued e user),
                \<lparr>database = t\<lparr>sessions := sessions t @ [session_row e user],
                               refresh_tokens :=
                                 remove1 old (refresh_tokens t @ [refresh_row e user])\<rparr>,
                 pending = [], outcomes = tl (tl (answers e'))\<rparr>))"
  by (simp add: create_session_unfold commit_def db_load_def Let_def answer_ok_def drop_Suc
           split: option.splits)

lemma refresh_token_closed:
  "refresh_token e t rt =
     (case jwt_decode (now e) rt of
        None \<Rightarrow> (Inl (HTTPException 401 ''Could not validate credentials''
                        [(''WWW-Authenticate'', ''Bearer'')]), t)
      | Some payload \<Rightarrow>
          if token_type payload \<noteq> Some ''refresh''
          then (Inl (HTTPException 401 ''Invalid token type'' []), t)
          else
            (case find (\<lambda>r. token r = rt \<and> expires_at r > now e) (refresh_tokens t) of
               None \<Rightarrow> (Inl (HTTPException 401 ''Invalid or expired refresh token'' []), t)
             | Some db_refresh \<Rightarrow>
                 (case find (\<lambda>u. Some (uid u) = sub payload) (users t) of
                    None \<Rightarrow> (Inl (HTTPException 404 ''User not found'' []), t)
                  | Some user \<Rightarrow>
                      if \<not> answer_ok 0 e
                      then (Inl (HTTPException 500 ''OperationalError'' []), t)
                      else case refused e user t of
                        Some err \<Rightarrow> (Inl (reraise err), t)
                      | None \<Rightarrow>
                          if \<not> answer_ok 1 e
                          then (Inl (HTTPException 500 ''OperationalError'' []),
                                t\<lparr>sessions := sessions t @ [session_row e user],
                                  refresh_tokens :=
                                    remove1 db_refresh
                                      (refresh_tokens t @ [refresh_row e user])\<rparr>)
                          else (Inr (issued e user),
                                t\<lparr>sessions := sessions t @ [session_row e user],
                                  refresh_tokens :=
                                    remove1 db_refresh
                                      (refresh_tokens t @ [refresh_row e user])\<rparr>))))"
  by (simp add: refresh_token_def refresh_access_token_def decode_token_def get_db_def
                db_add_def create_session_rotation
           split: option.splits)

lemma sign_out_closed:
  "sign_out e t tok =
     (case find (\<lambda>s. token s = tok) (sessions t) of
        None \<Rightarrow> (Inr ''Successfully signed out'', t)
      | Some session \<Rightarrow>
          if \<not> answer_ok 0 e then (Inl OperationalError, t)
          else (Inr ''Successfully signed out'', t\<lparr>sessions := remove1 session (sessions t)\<rparr>))"
  by (simp add: sign_out_def logout_def commit_def get_db_def db_add_def answer_ok_0
           split: option.splits)

lemma create_user_closed:
  assumes "find (\<lambda>u. email u = em) (users t) = None" and "\<not> secret_refused pw"
  shows "create_user e (get_db e t) em pw md =
     (if \<not> answer_ok 0 e
      then (Inl OperationalError,
            \<lparr>database = t, pending = [AddUser (new_user e em pw md)], outcomes = drop 1 (answers e)\<rparr>)
      else if length em > 255
      then (Inl DataError,
            \<lparr>database = t, pending = [AddUser (new_user e em pw md)], outcomes = drop 1 (answers e)\<rparr>)
      else if uuid4 e \<in> set (map uid (users t))
      then (Inl IntegrityError,
            \<lparr>database = t, pending = [AddUser (new_user e em pw md)], outcomes = drop 1 (answers e)\<rparr>)
      else if \<not> answer_ok 1 e
      then (Inl OperationalError,
            \<lparr>database = t\<lparr>users := users t @ [new_user e em pw md]\<rparr>, pending = [],
             outcomes = drop 2 (answers e)\<rparr>)
      else (Inr (new_user e em pw md),
            \<lparr>database = t\<lparr>users := users t @ [new_user e em pw md]\<rparr>, pending = [],
             outcomes = drop 2 (answers e)\<rparr>))"
proof -
  from assms have "em \<notin> set (map email (users t))" by (auto simp: find_None_set)
  with assms show ?thesis
    by (simp add: create_user_def commit_def db_load_def get_db_def db_add_def answer_ok_def
                  new_user_def get_password_hash_def Let_def drop_Suc numeral_2_eq_2)
qed

lemma refused_users [simp]: "refused e u (t\<lparr>users := us\<rparr>) = refused e u t"
  by (simp add: refused_def)

lemma sign_up_closed:
  "sign_up e t em pw md =
     (case find (\<lambda>u. email u = em) (users t) of
        Some existing_user \<Rightarrow> (Inl (HTTPException 400 ''User already exists'' []), t)
      | None \<Rightarrow>
          if secret_refused pw then (Inl (HTTPException 500 ''ValueError'' []), t)
          else if \<not> answer_ok 0 e then (Inl (HTTPException 500 ''OperationalError'' []), t)
          else if length em > 255 then (Inl (HTTPException 500 ''DataError'' []), t)
          else if uuid4 e \<in> set (map uid (users t))
          then (Inl (HTTPException 500 ''IntegrityError'' []), t)
          else if \<not> answer_ok 1 e
          then (Inl (HTTPException 500 ''OperationalError'' []),
                t\<lparr>users := users t @ [new_user e em pw md]\<rparr>)
          else if \<not> answer_ok 2 e
          then (Inl (HTTPException 500 ''OperationalError'' []),
                t\<lparr>users := users t @ [new_user e em pw md]\<rparr>)
          else case refused e (new_user e em pw md) t of
            Some err \<Rightarrow>
              (Inl (reraise err), t\<lparr>users := users t @ [new_user e em pw md]\<rparr>)
          | None \<Rightarrow>
              if \<not> answer_ok 3 e
              then (Inl (HTTPException 500 ''OperationalError'' []),
                    t\<lparr>users := users t @ [new_user e em pw md],
                      sessions := sessions t @ [session_row e (new_user e em pw md)],
                      refresh_tokens :=
                        refresh_tokens t @ [refresh_row e (new_user e em pw md)]\<rparr>)
              else (Inr (issued e (new_user e em pw md)),
                    t\<lparr>users := users t @ [new_user e em pw md],
                      sessions := sessions t @ [session_row e (new_user e em pw md)],
                      refresh_tokens :=
                        refresh_tokens t @ [refresh_row e (new_user e em pw md)]\<rparr>))"
proof (cases "find (\<lambda>u. email u = em) (users t)")
  case (Some u)
  then show ?thesis by (simp add: sign_up_def create_user_def get_db_def)
next
  case None
  show ?thesis
  proof (cases "secret_refused pw")
    case True
    with None show ?thesis
      by (simp add: sign_up_def create_user_def get_db_def get_password_hash_def)
  next
    case False
    note cs = create_session_closed
      [of e "t\<lparr>users := users t @ [new_user e em pw md]\<rparr>" 2 e "new_user e em pw md", simplified]
    show ?thesis
      unfolding sign_up_def create_user_closed [OF None False]
      by (simp add: None False cs split: option.splits)
  qed
qed

subsection \<open>The example run\<close>

lemma collides_users [simp]: "collides e u (t\<lparr>users := us\<rparr>) = collides e u t"
  by (simp add: collides_def)

lemma access_token_eq:
  "token (session_row e u) =
     Signed \<lparr>sub = Some (uid u), email_claim = Some (email u),
             exp = Some (timegm (now e) + 604800), token_type = Some ''access''\<rparr>"
  by (simp add: session_row_def create_access_token_def token_data_def jwt_encode_def
                ACCESS_TOKEN_EXPIRE_MINUTES_def minutes_def timegm_def)

lemma refresh_token_eq:
  "token (refresh_row e u) =
     Signed \<lparr>sub = Some (uid u), email_claim = Some (email u),
             exp = Some (timegm (now e) + 2592000), token_type = Some ''refresh''\<rparr>"
  by (simp add: refresh_row_def create_refresh_token_def token_data_def jwt_encode_def
                REFRESH_TOKEN_EXPIRE_DAYS_def days_def timegm_def)

lemma example_fits:
  "fits at_signup alice" "fits same_second alice" "fits next_second alice"
  by code_simp+

lemma example_password: "\<not> secret_refused ''pw1''"
  by code_simp

lemma answer_ok_no_faults [simp]: "answers e = [] \<Longrightarrow> answer_ok n e"
  by (simp add: answer_ok_def)

lemma example_env [simp]:
  "uuid4 same_second = uuid4 at_signup" "answers same_second = []"
  "uuid4 next_second = uuid4 at_signup" "answers next_second = []"
  "answers at_signup = []"
  by (simp_all add: same_second_def next_second_def at_signup_def)

lemma example_signup:
  "sign_up at_signup no_rows ''a@x.com'' ''pw1'' None = (Inr (issued at_signup alice), signed_up)"
proof -
  have "refused at_signup alice no_rows = None"
    using example_fits(1) by (simp add: refused_None collides_def no_rows_def)
  then have r: "refused at_signup (new_user at_signup ''a@x.com'' ''pw1'' None) no_rows = None"
    by (simp add: alice_def)
  have f: "find (\<lambda>u. email u = ''a@x.com'') (users no_rows) = None"
    "uuid4 at_signup \<notin> set (map uid (users no_rows))"
    by (simp_all add: no_rows_def)
  show ?thesis
    unfolding sign_up_closed f r
    by (simp add: example_password f) (simp add: no_rows_def signed_up_def alice_def)
qed

lemma example_seconds:
  "timegm (now same_second) = timegm (now at_signup)"
  "timegm (now next_second) = timegm (now at_signup) + 1"
  by (simp_all add: same_second_def next_second_def at_signup_def timegm_def)

lemma example_auth:
  "authenticate_user (get_db e signed_up) ''a@x.com'' ''pw1'' = Inr (Some alice)"
proof -
  have "find (\<lambda>u. email u = ''a@x.com'') (users signed_up) = Some alice"
    by (simp add: signed_up_def alice_def new_user_def)
  moreover have "verify_password ''pw1'' (encrypted_password alice) = Inr True"
    by (simp add: verify_password_def example_password alice_def new_user_def)
  ultimately show ?thesis by (simp add: authenticate_user_def get_db_def)
qed

lemma example_collides:
  "timegm (now e) = timegm (now at_signup) \<Longrightarrow> collides e alice signed_up"
  by (simp add: collides_def signed_up_def access_token_eq)

lemma example_refused: "refused same_second alice signed_up = Some IntegrityError"
proof -
  have "token (session_row same_second alice) \<in> set (map token (sessions signed_up))"
    by (simp add: signed_up_def access_token_eq example_seconds)
  then show ?thesis using example_fits(2) by (simp add: refused_def fits_def)
qed

lemma example_decode:
  "timegm (now e) \<le> timegm (now at_signup) + 2592000 \<Longrightarrow>
   jwt_decode (now e) (token (refresh_row at_signup alice)) =
     Some \<lparr>sub = Some (uid alice), email_claim = Some (email alice),
            exp = Some (timegm (now at_signup) + 2592000), token_type = Some ''refresh''\<rparr>"
  by (simp add: refresh_token_eq jwt_decode_def)

lemma example_refresh_row:
  "now e < now at_signup + 2592000000000 \<Longrightarrow>
   find (\<lambda>r. token r = token (refresh_row at_signup alice) \<and> now e < expires_at r)
     (refresh_tokens signed_up) = Some (refresh_row at_signup alice)"
  by (simp add: signed_up_def) (simp add: refresh_row_def days_def REFRESH_TOKEN_EXPIRE_DAYS_def)

lemma example_user:
  "find (\<lambda>u. uid u = uid alice) (users signed_up) = Some alice"
  by (simp add: signed_up_def)


subsection \<open>Logout and what it leaves alone\<close>

lemma remove1_unique_token:
  "distinct (map token rows) \<Longrightarrow> find (\<lambda>s. token s = tok) rows = Some s \<Longrightarrow>
   remove1 s rows = filter (\<lambda>r. token r \<noteq> tok) rows"
proof (induction rows)
  case Nil
  then show ?case by simp
next
  case (Cons r rows)
  show ?case
  proof (cases "token r = tok")
    case True
    with Cons.prems have "s = r" by simp
    from Cons.prems(1) True have "\<forall>x\<in>set rows. token x \<noteq> tok" by (auto simp: image_iff)
    note \<open>s = r\<close> this
    then show ?thesis using True by (simp add: filter_id_conv)
  next
    case False
    with Cons.prems have f: "find (\<lambda>s. token s = tok) rows = Some s" and "distinct (map token rows)"
      by auto
    with Cons.IH have "remove1 s rows = filter (\<lambda>r. token r \<noteq> tok) rows" by simp
    moreover from f have "token s = tok" by (auto dest: find_Some_set)
    ultimately show ?thesis using False by auto
  qed
qed

lemma get_db_simps [simp]:
  "database (get_db e t) = t" "pending (get_db e t) = []" "outcomes (get_db e t) = answers e"
  by (simp_all add: get_db_def)

lemma logout_closed:
  "logout (get_db e t) tok =
     (case find (\<lambda>s. token s = tok) (sessions t) of
        None \<Rightarrow> (Inr (), get_db e t)
      | Some session \<Rightarrow>
          if \<not> answer_ok 0 e
          then (Inl OperationalError,
                \<lparr>database = t, pending = [DeleteSession session], outcomes = tl (answers e)\<rparr>)
          else (Inr (), \<lparr>database = t\<lparr>sessions := remove1 session (sessions t)\<rparr>,
                          pending = [], outcomes = tl (answers e)\<rparr>))"
  by (simp add: logout_def commit_def get_db_def db_add_def answer_ok_0 split: option.splits)

lemma logout_removes_token:
  assumes "storage_accepts e" and "distinct (map token (sessions t))"
  shows "logout (get_db e t) tok = (Inr (), snd (logout (get_db e t) tok)) \<and>
         database (snd (logout (get_db e t) tok)) =
           t\<lparr>sessions := filter (\<lambda>s. token s \<noteq> tok) (sessions t)\<rparr>"
proof (cases "find (\<lambda>s. token s = tok) (sessions t)")
  case None
  then have "\<forall>s\<in>set (sessions t). token s \<noteq> tok" by (auto simp: find_None_set)
  then have "filter (\<lambda>s. token s \<noteq> tok) (sessions t) = sessions t" by (simp add: filter_id_conv)
  with None show ?thesis by (simp add: logout_closed)
next
  case (Some s)
  with assms show ?thesis
    by (simp add: logout_closed storage_accepts_answer_ok remove1_unique_token)
qed

lemma refresh_token_fewer_sessions:
  assumes "users t1 = users t" and "refresh_tokens t1 = refresh_tokens t"
    and "set (sessions t1) \<subseteq> set (sessions t)"
    and "refresh_token e t rt = (Inr r, t2)"
  shows "\<exists>t3. refresh_token e t1 rt = (Inr r, t3)"
proof -
  have c: "refused e u t = None \<Longrightarrow> refused e u t1 = None" for u
    using assms(2,3) by (auto simp: refused_def split: if_splits)
  from assms(4) show ?thesis
    unfolding refresh_token_closed assms(1,2)
    by (auto split: option.splits if_splits dest: c)
qed


subsection \<open>Sign-up followed by sign-in or refresh\<close>

text \<open>
  A sign-up is followed by a sign-in or by a refresh with the token it returned. The
  tables before the sign-up hold no token issued to the UUID drawn for the new user. When
  the second request is served in another clock second than the sign-up, its tokens fit
  their columns and the storage server answers, the fresh tokens differ from every stored
  one and the request succeeds; a refresh token that was consumed is answered with 401
  from then on. A sign-in is answered with 401 when its password is one that the library
  accepts and that differs from the password of the sign-up within the first 72 bytes.
\<close>

lemma timegm_add_days: "timegm (t + days d) = timegm t + d * 86400"
  by (simp add: timegm_def days_def)

lemma timegm_mono: "a \<le> b \<Longrightarrow> timegm a \<le> timegm b"
  by (simp add: timegm_def div_le_mono)

lemma find_append:
  "find P (xs @ ys) = (case find P xs of Some x \<Rightarrow> Some x | None \<Rightarrow> find P ys)"
  by (induction xs) auto

lemma unused_uuid_no_token:
  assumes "unused_uuid (uid u) t"
  shows "token (session_row e u) \<notin> set (map token (sessions t))"
    and "token (refresh_row e' u) \<notin> set (map token (refresh_tokens t))"
proof -
  have n: "token row \<noteq> Signed c" if "row \<in> set (sessions t @ refresh_tokens t)"
    and "sub c = Some (uid u)" for row c
    using assms that by (auto simp: unused_uuid_def list_all_iff split: jwt.splits)
  show "token (session_row e u) \<notin> set (map token (sessions t))"
  proof
    assume "token (session_row e u) \<in> set (map token (sessions t))"
    then obtain row where "row \<in> set (sessions t)" "token row = token (session_row e u)" by auto
    then show False using n [of row] by (simp add: access_token_eq)
  qed
  show "token (refresh_row e' u) \<notin> set (map token (refresh_tokens t))"
  proof
    assume "token (refresh_row e' u) \<in> set (map token (refresh_tokens t))"
    then obtain row where "row \<in> set (refresh_tokens t)" "token row = token (refresh_row e' u)"
      by auto
    then show False using n [of row] by (simp add: refresh_token_eq)
  qed
qed

lemma unused_uuid_refresh_rows:
  assumes "unused_uuid (uid u) t"
  shows "\<forall>r\<in>set (refresh_tokens t). token r \<noteq> token (refresh_row e u)"
proof
  fix r assume "r \<in> set (refresh_tokens t)"
  then have "token r \<in> set (map token (refresh_tokens t))" by simp
  with unused_uuid_no_token(2) [OF assms, of e] show "token r \<noteq> token (refresh_row e u)"
    by metis
qed

lemma sign_up_success:
  assumes "sign_up e t em pw md = (Inr r, t1)"
  shows "find (\<lambda>u. email u = em) (users t) = None"
    and "uuid4 e \<notin> set (map uid (users t))"
    and "r = issued e (new_user e em pw md)"
    and "t1 = t\<lparr>users := users t @ [new_user e em pw md],
                 sessions := sessions t @ [session_row e (new_user e em pw md)],
                 refresh_tokens := refresh_tokens t @ [refresh_row e (new_user e em pw md)]\<rparr>"
    and "\<not> secret_refused pw"
  using assms unfolding sign_up_closed
  by (auto split: option.splits if_splits)

lemma new_user_simps [simp]:
  "uid (new_user e em pw md) = uuid4 e" "email (new_user e em pw md) = em"
  "encrypted_password (new_user e em pw md) = Bcrypt (gensalt e) (take 72 (utf8 pw))"
  by (simp_all add: new_user_def)

lemma authenticate_after_sign_up:
  assumes "sign_up e0 t em pw md = (Inr r0, t1)"
  shows "authenticate_user (get_db e1 t1) em pw' =
           (if secret_refused pw' then Inl ValueError
            else if take 72 (utf8 pw') = take 72 (utf8 pw)
            then Inr (Some (new_user e0 em pw md)) else Inr None)"
  using sign_up_success(1) [OF assms]
  by (auto simp: sign_up_success(4) [OF assms] authenticate_user_def find_append
                 verify_password_def)

lemma sign_in_wrong_password_after_sign_up:
  assumes "sign_up e0 t em pw md = (Inr r0, t1)" and "\<not> secret_refused pw'"
    and "take 72 (utf8 pw') \<noteq> take 72 (utf8 pw)"
  shows "sign_in e1 t1 em pw' =
           (Inl (HTTPException 401 ''Invalid credentials'' [(''WWW-Authenticate'', ''Bearer'')]), t1)"
  using assms(2,3) by (simp add: sign_in_closed authenticate_after_sign_up [OF assms(1)])

lemma no_refusal_in_other_second:
  assumes "sign_up e0 t em pw md = (Inr r0, t1)" and "unused_uuid (uuid4 e0) t"
    and "timegm (now e1) \<noteq> timegm (now e0)" and "fits e1 (new_user e0 em pw md)"
  shows "refused e1 (new_user e0 em pw md) t1 = None"
proof -
  have "\<not> collides e1 (new_user e0 em pw md) t1"
    using unused_uuid_no_token [of "new_user e0 em pw md" t] assms(2,3)
    by (simp add: sign_up_success(4) [OF assms(1)] collides_def)
       (simp add: access_token_eq refresh_token_eq)
  with assms(4) show ?thesis by (simp add: refused_None)
qed

lemma sign_in_after_sign_up:
  assumes "sign_up e0 t em pw md = (Inr r0, t1)" and "unused_uuid (uuid4 e0) t"
    and "timegm (now e1) \<noteq> timegm (now e0)" and "fits e1 (new_user e0 em pw md)"
    and "answer_ok 0 e1" and "answer_ok 1 e1"
  shows "sign_in e1 t1 em pw =
           (Inr (issued e1 (new_user e0 em pw md)),
            t1\<lparr>sessions := sessions t1 @ [session_row e1 (new_user e0 em pw md)],
               refresh_tokens := refresh_tokens t1 @ [refresh_row e1 (new_user e0 em pw md)]\<rparr>)"
  using assms(5,6) no_refusal_in_other_second [OF assms(1-4)] sign_up_success(5) [OF assms(1)]
  by (simp add: sign_in_closed authenticate_after_sign_up [OF assms(1)])

lemma refresh_rejected_without_row:
  assumes "\<forall>r\<in>set (refresh_tokens t). token r \<noteq> rt"
  shows "\<exists>x. refresh_token e t rt = (Inl x, t) \<and> http_status x = 401"
proof -
  from assms have "find (\<lambda>r. token r = rt \<and> now e < expires_at r) (refresh_tokens t) = None"
    by (simp add: find_None_set)
  then show ?thesis
    by (simp add: refresh_token_closed http_status_def split: option.splits)
qed

lemma refresh_replay_rejected:
  assumes "distinct (map token (refresh_tokens t))" and "refresh_token e t rt = (Inr r, t')"
  shows "\<exists>x. refresh_token e' t' rt = (Inl x, t') \<and> http_status x = 401"
proof -
  from assms(2) obtain user old where
    old: "find (\<lambda>r. token r = rt \<and> now e < expires_at r) (refresh_tokens t) = Some old"
    and nc: "refused e user t = None"
    and t': "t' = t\<lparr>sessions := sessions t @ [session_row e user],
                      refresh_tokens := remove1 old (refresh_tokens t @ [refresh_row e user])\<rparr>"
    unfolding refresh_token_closed by (auto split: option.splits if_splits)
  from old have o: "old \<in> set (refresh_tokens t)" "token old = rt" by (auto dest: find_Some_set)
  then have new: "token (refresh_row e user) \<noteq> rt"
    using nc by (auto simp: refused_None collides_def)
  from o(1) have "refresh_tokens t' = remove1 old (refresh_tokens t) @ [refresh_row e user]"
    by (simp add: t' remove1_append)
  moreover have "\<forall>r\<in>set (remove1 old (refresh_tokens t)). token r \<noteq> rt"
    using remove1_distinct_token [OF assms(1) o(1)] o(2) by simp
  ultimately have "\<forall>r\<in>set (refresh_tokens t'). token r \<noteq> rt" using new by auto
  then show ?thesis by (rule refresh_rejected_without_row)
qed

lemma refresh_after_sign_up:
  assumes su: "sign_up e0 t em pw md = (Inr r0, t1)" and fresh: "unused_uuid (uuid4 e0) t"
    and later: "timegm (now e1) \<noteq> timegm (now e0)"
    and fit: "fits e1 (new_user e0 em pw md)"
    and live: "now e1 < now e0 + days REFRESH_TOKEN_EXPIRE_DAYS"
    and ok: "answer_ok 0 e1" "answer_ok 1 e1"
  shows "refresh_token e1 t1 (refreshToken r0) =
           (Inr (issued e1 (new_user e0 em pw md)),
            t1\<lparr>sessions := sessions t1 @ [session_row e1 (new_user e0 em pw md)],
               refresh_tokens := refresh_tokens t @ [refresh_row e1 (new_user e0 em pw md)]\<rparr>)"
proof -
  let ?u = "new_user e0 em pw md"
  let ?rt = "token (refresh_row e0 ?u)"
  note s = sign_up_success [OF su]
  have rt: "refreshToken r0 = ?rt" by (simp add: s(3) issued_def)
  have "timegm (now e1) \<le> timegm (now e0 + days REFRESH_TOKEN_EXPIRE_DAYS)"
    using live by (intro timegm_mono) simp
  then have d: "jwt_decode (now e1) ?rt =
      Some \<lparr>sub = Some (uid ?u), email_claim = Some (email ?u),
             exp = Some (timegm (now e0) + 2592000), token_type = Some ''refresh''\<rparr>"
    by (simp add: refresh_token_eq jwt_decode_def timegm_add_days REFRESH_TOKEN_EXPIRE_DAYS_def)
  have nt: "\<forall>r\<in>set (refresh_tokens t). token r \<noteq> ?rt"
    using unused_uuid_refresh_rows [of ?u t e0] fresh by simp
  then have "find (\<lambda>r. token r = ?rt \<and> now e1 < expires_at r) (refresh_tokens t) = None"
    by (simp add: find_None_set)
  then have f: "find (\<lambda>r. token r = ?rt \<and> now e1 < expires_at r) (refresh_tokens t1) =
                 Some (refresh_row e0 ?u)"
    using live by (simp add: s(4) find_append) (simp add: refresh_row_def)
  have "find (\<lambda>u. uid u = uuid4 e0) (users t) = None"
    using s(2) by (auto simp: find_None_set image_iff)
  then have u: "find (\<lambda>u. uid u = uuid4 e0) (users t1) = Some ?u"
    by (simp add: s(4) find_append)
  have nc: "refused e1 ?u t1 = None" using su fresh later fit by (rule no_refusal_in_other_second)
  have "refresh_row e0 ?u \<notin> set (refresh_tokens t)" using nt by auto
  then have rm: "remove1 (refresh_row e0 ?u) (refresh_tokens t1 @ [refresh_row e1 ?u]) =
                  refresh_tokens t @ [refresh_row e1 ?u]"
    by (simp add: s(4) remove1_append remove1_idem)
  show ?thesis
    unfolding rt refresh_token_closed d
    using ok by (simp add: f u nc rm)
qed

lemma refresh_replay_after_sign_up:
  assumes su: "sign_up e0 t em pw md = (Inr r0, t1)" and fresh: "unused_uuid (uuid4 e0) t"
    and rf: "refresh_token e1 t1 (refreshToken r0) = (Inr r1, t2)"
  shows "\<exists>x. refresh_token e2 t2 (refreshToken r0) = (Inl x, t2) \<and> http_status x = 401"
proof -
  let ?u = "new_user e0 em pw md"
  let ?rt = "token (refresh_row e0 ?u)"
  note s = sign_up_success [OF su]
  have rt: "refreshToken r0 = ?rt" by (simp add: s(3) issued_def)
  have nt: "\<forall>r\<in>set (refresh_tokens t). token r \<noteq> ?rt"
    using unused_uuid_refresh_rows [of ?u t e0] fresh by simp
  from rf obtain user old where
    old: "find (\<lambda>r. token r = ?rt \<and> now e1 < expires_at r) (refresh_tokens t1) = Some old"
    and nc: "refused e1 user t1 = None"
    and t2: "t2 = t1\<lparr>sessions := sessions t1 @ [session_row e1 user],
                       refresh_tokens := remove1 old (refresh_tokens t1 @ [refresh_row e1 user])\<rparr>"
    unfolding rt refresh_token_closed by (auto split: option.splits if_splits)
  from old have "old \<in> set (refresh_tokens t1)" "token old = ?rt" by (auto dest: find_Some_set)
  with nt have o: "old = refresh_row e0 ?u" by (auto simp: s(4))
  have "refresh_row e0 ?u \<notin> set (refresh_tokens t)" using nt by auto
  then have "refresh_tokens t2 = refresh_tokens t @ [refresh_row e1 user]"
    by (simp add: t2 o s(4) remove1_append remove1_idem)
  moreover have "token (refresh_row e1 user) \<noteq> ?rt"
    using nc by (auto simp: refused_None collides_def s(4))
  ultimately have "\<forall>r\<in>set (refresh_tokens t2). token r \<noteq> ?rt" using nt by auto
  then show ?thesis unfolding rt by (rule refresh_rejected_without_row)
qed


subsection \<open>Facts about the example data\<close>

lemma example_fresh: "unused_uuid (uuid4 at_signup) no_rows"
  by (simp add: unused_uuid_def no_rows_def)

lemma example_env2:
  "now at_signup = 1700000000000000" "now next_second = 1700000001300000"
  "now same_second = 1700000000300000"
  "now after_expiry = 1700604801000000" "answers after_expiry = []"
  "storage_accepts next_second"
  by (simp_all add: at_signup_def next_second_def after_expiry_def storage_accepts_def
                    same_second_def)

lemma example_tables:
  "users signed_up = [alice]" "sessions signed_up = [session_row at_signup alice]"
  "refresh_tokens signed_up = [refresh_row at_signup alice]"
  by (simp_all add: signed_up_def)

lemma example_utf8: "take 72 (utf8 ''pw1'') = ''pw1''"
  by code_simp

lemma example_alice:
  "uid alice = ''7d444840''" "email alice = ''a@x.com''"
  "encrypted_password alice = Bcrypt ''N9qo8uLO'' ''pw1''"
  by (simp_all add: alice_def new_user_def at_signup_def example_utf8)

lemma example_session_row:
  "expires_at (session_row at_signup alice) = 1700604800000000"
  "user_id (session_row at_signup alice) = ''7d444840''"
  "expires_at (refresh_row at_signup alice) = 1702592000000000"
  by (simp_all add: session_row_def ACCESS_TOKEN_EXPIRE_MINUTES_def minutes_def
                    refresh_row_def REFRESH_TOKEN_EXPIRE_DAYS_def days_def
                    example_env2 example_alice)

lemmas example_data = example_env2 example_tables example_alice example_session_row

lemma example_access_decode:
  "jwt_decode (now next_second) (token (session_row at_signup alice)) =
     Some \<lparr>sub = Some ''7d444840'', email_claim = Some ''a@x.com'',
            exp = Some 1700604800, token_type = Some ''access''\<rparr>"
  by (simp add: access_token_eq jwt_decode_def timegm_def example_data)


lemma example_next_second:
  "sign_in next_second signed_up ''a@x.com'' ''pw1'' =
     (Inr (issued next_second alice),
      signed_up\<lparr>sessions := sessions signed_up @ [session_row next_second alice],
                refresh_tokens := refresh_tokens signed_up @ [refresh_row next_second alice]\<rparr>)"
  "refresh_token next_second signed_up (refreshToken (issued at_signup alice)) =
     (Inr (issued next_second alice),
      signed_up\<lparr>sessions := sessions signed_up @ [session_row next_second alice],
                refresh_tokens := refresh_tokens no_rows @ [refresh_row next_second alice]\<rparr>)"
proof -
  have ne: "timegm (now next_second) \<noteq> timegm (now at_signup)" by (simp add: example_seconds)
  have ok: "answer_ok 0 next_second" "answer_ok 1 next_second" by simp_all
  have fit: "fits next_second (new_user at_signup ''a@x.com'' ''pw1'' None)"
    using example_fits(3) by (simp add: alice_def)
  have live: "now next_second < now at_signup + days REFRESH_TOKEN_EXPIRE_DAYS"
    by (simp add: example_data days_def REFRESH_TOKEN_EXPIRE_DAYS_def)
  show "sign_in next_second signed_up ''a@x.com'' ''pw1'' =
     (Inr (issued next_second alice),
      signed_up\<lparr>sessions := sessions signed_up @ [session_row next_second alice],
                refresh_tokens := refresh_tokens signed_up @ [refresh_row next_second alice]\<rparr>)"
    using sign_in_after_sign_up [OF example_signup example_fresh ne fit ok]
    by (simp add: alice_def)
  show "refresh_token next_second signed_up (refreshToken (issued at_signup alice)) =
     (Inr (issued next_second alice),
      signed_up\<lparr>sessions := sessions signed_up @ [session_row next_second alice],
                refresh_tokens := refresh_tokens no_rows @ [refresh_row next_second alice]\<rparr>)"
    using refresh_after_sign_up [OF example_signup example_fresh ne fit live ok]
    by (simp add: alice_def)
qed


subsection \<open>Runs that raise\<close>

text \<open>
  An exception of \<open>create_session\<close> does not tell whether its rows were written: the
  commit may be refused, and then none is, or the read of the user that follows the commit
  may fail, and then both are.
\<close>

lemma sign_in_raises_after_commit:
  "sign_in (next_second\<lparr>answers := [True, False]\<rparr>) signed_up ''a@x.com'' ''pw1'' =
     (Inl OperationalError,
      signed_up\<lparr>sessions := sessions signed_up @ [session_row next_second alice],
                refresh_tokens := refresh_tokens signed_up @ [refresh_row next_second alice]\<rparr>)"
proof -
  let ?e = "next_second\<lparr>answers := [True, False]\<rparr>"
  have rows: "session_row ?e alice = session_row next_second alice"
    "refresh_row ?e alice = refresh_row next_second alice"
    by (simp_all add: session_row_def refresh_row_def create_access_token_def
                      create_refresh_token_def)
  have "timegm (now ?e) \<noteq> timegm (now at_signup)" by (simp add: example_seconds)
  moreover have "fits ?e (new_user at_signup ''a@x.com'' ''pw1'' None)"
    using example_fits(3) by (simp add: fits_def rows alice_def [symmetric])
  ultimately have "refused ?e (new_user at_signup ''a@x.com'' ''pw1'' None) signed_up = None"
    by (rule no_refusal_in_other_second [OF example_signup example_fresh])
  then show ?thesis
    unfolding sign_in_closed example_auth
    by (simp add: alice_def [symmetric] answer_ok_def rows)
qed

text \<open>
  With a UUID in its canonical form of 36 characters, the tokens of a user whose e-mail
  address has 42 characters are longer than the 255 characters of their columns. The
  sign-up commits the user, the INSERT of the session is refused, and the user stays
  without session and refresh token; no fault of the storage server is involved.
\<close>

lemma sign_up_long_email_leaves_user:
  "sign_up \<lparr>now = 1700000000000000, uuid4 = ''7d444840-9dc0-11d1-b245-5ffdce74fad2'',
            gensalt = ''N9qo8uLO'', answers = []\<rparr>
     no_rows ''the.accounting.department@mail.example.com'' ''pw1'' None =
     (Inl (HTTPException 500 ''DataError'' []),
      \<lparr>users = [\<lparr>uid = ''7d444840-9dc0-11d1-b245-5ffdce74fad2'',
                  email = ''the.accounting.department@mail.example.com'',
                  email_verified = False, encrypted_password = Bcrypt ''N9qo8uLO'' ''pw1'',
                  created_at = 1700000000000000, updated_at = 1700000000000000,
                  metadata = []\<rparr>],
       sessions = [], refresh_tokens = []\<rparr>)"
  by code_simp

text \<open>
  bcrypt reads 72 bytes: a password that agrees with the password of the sign-up on the
  first 72 bytes of its encoding signs in, whatever follows them.
\<close>

lemma sign_in_same_72_bytes:
  assumes "sign_up e0 t em pw md = (Inr r0, t1)" and "unused_uuid (uuid4 e0) t"
    and "timegm (now e1) \<noteq> timegm (now e0)" and "fits e1 (new_user e0 em pw md)"
    and "answer_ok 0 e1" and "answer_ok 1 e1"
    and "\<not> secret_refused pw'" and "take 72 (utf8 pw') = take 72 (utf8 pw)"
  shows "fst (sign_in e1 t1 em pw') = Inr (issued e1 (new_user e0 em pw md))"
  using assms(5-8) no_refusal_in_other_second [OF assms(1-4)]
  by (simp add: sign_in_closed authenticate_after_sign_up [OF assms(1)])

text \<open>
  For a password that the library accepts, the two failing runs of a sign-in are the
  same: an e-mail address that no user has, and a known address with a password that does
  not verify, raise the same exception and leave the tables as they were.
\<close>

lemma sign_in_failure_uniform_accepted:
  assumes "\<not> secret_refused pw"
    and "find (\<lambda>u. email u = em) (users t) = None \<or>
         (\<exists>u. find (\<lambda>u. email u = em) (users t) = Some u \<and>
              verify_password pw (encrypted_password u) = Inr False)"
  shows "sign_in e t em pw =
     (Inl (HTTPException 401 ''Invalid credentials'' [(''WWW-Authenticate'', ''Bearer'')]), t)"
  using assms(2)
  by (auto simp: sign_in_closed authenticate_user_def)


section \<open>The claims about the auth service\<close>

subsection \<open>Refresh-token rotation\<close>

text \<open>
  Claim C1: every issued refresh token is accepted once, with rotation, and never again.
  Every use after one that succeeded is answered with 401
  (\<open>refresh_replay_rejected\<close>, \<open>refresh_replay_after_sign_up\<close>). The first use
  succeeds and rotates when it is served in another clock second than the one in which the
  token was issued, the fresh tokens fit their columns and the storage server answers
  (\<open>refresh_after_sign_up\<close>). A first use within the clock second in which the token was
  issued does not: the fresh access token then has the payload of the one issued with the
  refresh token (same subject, same email, same \<open>exp\<close> in whole seconds), so it is the
  same string; the row of the earlier session still holds it, the INSERT violates
  \<open>unique=True\<close> on \<open>sessions.token\<close>, and the first use of a live refresh token is
  answered with 500 and rotates nothing.
\<close>

theorem refresh_in_issuing_second_fails:
  "sign_up at_signup no_rows ''a@x.com'' ''pw1'' None = (Inr (issued at_signup alice), signed_up) \<and>
   timegm (now same_second) = timegm (now at_signup) \<and>
   refresh_token same_second signed_up (refreshToken (issued at_signup alice)) =
     (Inl (HTTPException 500 ''IntegrityError'' []), signed_up)"
proof -
  have d: "jwt_decode (now same_second) (token (refresh_row at_signup alice)) =
     Some \<lparr>sub = Some (uid alice), email_claim = Some (email alice),
            exp = Some (timegm (now at_signup) + 2592000), token_type = Some ''refresh''\<rparr>"
    by (rule example_decode) (simp add: example_seconds)
  have r: "find (\<lambda>r. token r = token (refresh_row at_signup alice) \<and> now same_second < expires_at r)
     (refresh_tokens signed_up) = Some (refresh_row at_signup alice)"
    by (rule example_refresh_row) (simp add: same_second_def at_signup_def)
  have "refresh_token same_second signed_up (token (refresh_row at_signup alice)) =
     (Inl (HTTPException 500 ''IntegrityError'' []), signed_up)"
    unfolding refresh_token_closed d
    by (simp add: r example_user example_refused)
  then show ?thesis by (simp add: example_signup example_seconds issued_def)
qed

subsection \<open>Atomicity of the mutating operations\<close>

text \<open>
  Claim C3, as the code has it. Sign-in, refresh and logout commit once, so after the
  call either all the row writes of the operation are visible or none is: the Session and
  RefreshToken rows of one \<open>create_session\<close>, and with them the removal of the
  consumed refresh token, become visible together. When the route returns, all its row
  writes are visible. When sign-in or refresh raises, the writes may be visible all the
  same: \<open>create_session\<close> reads the user again after its commit, and a failure of that
  read raises with the rows committed. Sign-up commits twice, the user first and the pair
  of rows afterwards: a sign-up that raises leaves the tables unchanged, or the new user
  alone, or the user with both rows.
\<close>

theorem row_writes_all_or_none:
  "(case sign_in e t em pw of
      (Inl x, t') \<Rightarrow>
        t' = t \<or>
        (\<exists>user. t' = t\<lparr>sessions := sessions t @ [session_row e user],
                        refresh_tokens := refresh_tokens t @ [refresh_row e user]\<rparr>)
    | (Inr r, t') \<Rightarrow>
        (\<exists>user. r = issued e user \<and>
           t' = t\<lparr>sessions := sessions t @ [session_row e user],
                  refresh_tokens := refresh_tokens t @ [refresh_row e user]\<rparr>)) \<and>
   (case refresh_token e t rt of
      (Inl x, t') \<Rightarrow>
        t' = t \<or>
        (\<exists>user old. old \<in> set (refresh_tokens t) \<and> token old = rt \<and>
           t' = t\<lparr>sessions := sessions t @ [session_row e user],
                  refresh_tokens := remove1 old (refresh_tokens t @ [refresh_row e user])\<rparr>)
    | (Inr r, t') \<Rightarrow>
        (\<exists>user old. r = issued e user \<and> old \<in> set (refresh_tokens t) \<and> token old = rt \<and>
           t' = t\<lparr>sessions := sessions t @ [session_row e user],
                  refresh_tokens := remove1 old (refresh_tokens t @ [refresh_row e user])\<rparr>)) \<and>
   (case sign_out e t tok of
      (Inl x, t') \<Rightarrow> t' = t
    | (Inr m, t') \<Rightarrow>
        t' = t \<or> (\<exists>s\<in>set (sessions t). token s = tok \<and>
                     t' = t\<lparr>sessions := remove1 s (sessions t)\<rparr>)) \<and>
   (case sign_up e t em pw md of
      (Inl x, t') \<Rightarrow>
        t' = t \<or> t' = t\<lparr>users := users t @ [new_user e em pw md]\<rparr> \<or>
        t' = t\<lparr>users := users t @ [new_user e em pw md],
               sessions := sessions t @ [session_row e (new_user e em pw md)],
               refresh_tokens := refresh_tokens t @ [refresh_row e (new_user e em pw md)]\<rparr>
    | (Inr r, t') \<Rightarrow>
        r = issued e (new_user e em pw md) \<and>
        t' = t\<lparr>users := users t @ [new_user e em pw md],
               sessions := sessions t @ [session_row e (new_user e em pw md)],
               refresh_tokens := refresh_tokens t @ [refresh_row e (new_user e em pw md)]\<rparr>)"
proof (intro conjI)
  show "case sign_in e t em pw of
      (Inl x, t') \<Rightarrow>
        t' = t \<or>
        (\<exists>user. t' = t\<lparr>sessions := sessions t @ [session_row e user],
                        refresh_tokens := refresh_tokens t @ [refresh_row e user]\<rparr>)
    | (Inr r, t') \<Rightarrow>
        (\<exists>user. r = issued e user \<and>
           t' = t\<lparr>sessions := sessions t @ [session_row e user],
                  refresh_tokens := refresh_tokens t @ [refresh_row e user]\<rparr>)"
    unfolding sign_in_closed by (auto split: option.splits sum.splits)
next
  show "case refresh_token e t rt of
      (Inl x, t') \<Rightarrow>
        t' = t \<or>
        (\<exists>user old. old \<in> set (refresh_tokens t) \<and> token old = rt \<and>
           t' = t\<lparr>sessions := sessions t @ [session_row e user],
                  refresh_tokens := remove1 old (refresh_tokens t @ [refresh_row e user])\<rparr>)
    | (Inr r, t') \<Rightarrow>
        (\<exists>user old. r = issued e user \<and> old \<in> set (refresh_tokens t) \<and> token old = rt \<and>
           t' = t\<lparr>sessions := sessions t @ [session_row e user],
                  refresh_tokens := remove1 old (refresh_tokens t @ [refresh_row e user])\<rparr>)"
    unfolding refresh_token_closed
    by (auto split: option.splits dest!: find_Some_set)
next
  show "case sign_out e t tok of
      (Inl x, t') \<Rightarrow> t' = t
    | (Inr m, t') \<Rightarrow>
        t' = t \<or> (\<exists>s\<in>set (sessions t). token s = tok \<and>
                     t' = t\<lparr>sessions := remove1 s (sessions t)\<rparr>)"
    unfolding sign_out_closed
    by (auto split: option.splits dest!: find_Some_set)
next
  show "case sign_up e t em pw md of
      (Inl x, t') \<Rightarrow>
        t' = t \<or> t' = t\<lparr>users := users t @ [new_user e em pw md]\<rparr> \<or>
        t' = t\<lparr>users := users t @ [new_user e em pw md],
               sessions := sessions t @ [session_row e (new_user e em pw md)],
               refresh_tokens := refresh_tokens t @ [refresh_row e (new_user e em pw md)]\<rparr>
    | (Inr r, t') \<Rightarrow>
        r = issued e (new_user e em pw md) \<and>
        t' = t\<lparr>users := users t @ [new_user e em pw md],
               sessions := sessions t @ [session_row e (new_user e em pw md)],
               refresh_tokens := refresh_tokens t @ [refresh_row e (new_user e em pw md)]\<rparr>"
    unfolding sign_up_closed by (simp split: option.splits)
qed

theorem row_writes_all_or_none_witness:
  "fst (sign_in next_second signed_up ''a@x.com'' ''pw1'') = Inr (issued next_second alice) \<and>
   fst (refresh_token next_second signed_up (refreshToken (issued at_signup alice))) =
     Inr (issued next_second alice) \<and>
   fst (sign_out next_second signed_up (access (issued at_signup alice))) =
     Inr ''Successfully signed out'' \<and>
   fst (sign_up at_signup no_rows ''a@x.com'' ''pw1'' None) = Inr (issued at_signup alice) \<and>
   (\<exists>user. snd (sign_in next_second signed_up ''a@x.com'' ''pw1'') =
      signed_up\<lparr>sessions := sessions signed_up @ [session_row next_second user],
                refresh_tokens := refresh_tokens signed_up @ [refresh_row next_second user]\<rparr>) \<and>
   (\<exists>user old. old \<in> set (refresh_tokens signed_up) \<and>
      snd (refresh_token next_second signed_up (refreshToken (issued at_signup alice))) =
      signed_up\<lparr>sessions := sessions signed_up @ [session_row next_second user],
                refresh_tokens :=
                  remove1 old (refresh_tokens signed_up @ [refresh_row next_second user])\<rparr>) \<and>
   (snd (sign_out next_second signed_up (access (issued at_signup alice))) = signed_up \<or>
    (\<exists>s\<in>set (sessions signed_up).
       snd (sign_out next_second signed_up (access (issued at_signup alice))) =
       signed_up\<lparr>sessions := remove1 s (sessions signed_up)\<rparr>)) \<and>
   snd (sign_up at_signup no_rows ''a@x.com'' ''pw1'' None) =
     no_rows\<lparr>users := users no_rows @ [new_user at_signup ''a@x.com'' ''pw1'' None],
             sessions := sessions no_rows @
               [session_row at_signup (new_user at_signup ''a@x.com'' ''pw1'' None)],
             refresh_tokens := refresh_tokens no_rows @
               [refresh_row at_signup (new_user at_signup ''a@x.com'' ''pw1'' None)]\<rparr>"
proof -
  have so: "fst (sign_out next_second signed_up (access (issued at_signup alice))) =
     Inr ''Successfully signed out''"
    by (simp add: sign_out_closed example_data issued_def)
  note a = row_writes_all_or_none [where e = next_second and t = signed_up and em = "''a@x.com''"
      and pw = "''pw1''" and rt = "refreshToken (issued at_signup alice)"
      and tok = "access (issued at_signup alice)" and md = None]
  note b = row_writes_all_or_none [where e = at_signup and t = no_rows and em = "''a@x.com''"
      and pw = "''pw1''" and md = None]
  from a example_next_second so b example_signup show ?thesis
    by (auto split: prod.splits sum.splits)
qed

text \<open>
  Claim C3 as stated fails twice. A sign-up whose first commit is accepted, and whose
  second commit is refused, leaves a persisted user with no session and no refresh token.
  And a refresh deletes only the refresh token it consumed: the session issued together
  with that token stays stored without it.
\<close>

theorem sign_up_leaves_user_without_session:
  "sign_up (at_signup\<lparr>answers := [True, True, False]\<rparr>) no_rows ''a@x.com'' ''pw1'' None =
     (Inl (HTTPException 500 ''OperationalError'' []),
      \<lparr>users = [alice], sessions = [], refresh_tokens = []\<rparr>) \<and>
   sessions (snd (refresh_token next_second signed_up (refreshToken (issued at_signup alice)))) =
     [session_row at_signup alice, session_row next_second alice] \<and>
   refresh_tokens
     (snd (refresh_token next_second signed_up (refreshToken (issued at_signup alice)))) =
     [refresh_row next_second alice] \<and>
   refresh_row at_signup alice \<noteq> refresh_row next_second alice"
proof -
  have "sign_up (at_signup\<lparr>answers := [True, True, False]\<rparr>) no_rows ''a@x.com'' ''pw1'' None =
     (Inl (HTTPException 500 ''OperationalError'' []),
      \<lparr>users = [alice], sessions = [], refresh_tokens = []\<rparr>)"
    unfolding sign_up_closed
    by (simp add: no_rows_def answer_ok_def alice_def new_user_def at_signup_def
                  example_password numeral_2_eq_2)
  moreover have "refresh_row at_signup alice \<noteq> refresh_row next_second alice"
    by (simp add: refresh_row_def example_data)
  ultimately show ?thesis
    by (simp add: example_next_second(2) example_data no_rows_def)
qed

subsection \<open>Validation of a bearer token\<close>

text \<open>
  Claim C5: \<open>get_current_user\<close> answers 401 when the token does not decode (in
  particular when its \<open>exp\<close> lies before the current second, however well signed) and
  when no session row holds exactly this token with an expiry after the current instant;
  it answers 404 when token and row are in order and no user has the id the token
  carries; otherwise it returns the user with that id. A token that decodes and carries
  no user id at all counts as one that does not decode: it is answered with 401.
\<close>

theorem get_current_user_outcomes:
  "(jwt_decode (now e) tok = None \<longrightarrow>
      get_current_user e db tok =
        Inl (HTTPException 401 ''Could not validate credentials''
               [(''WWW-Authenticate'', ''Bearer'')])) \<and>
   (\<forall>payload x. tok = Signed payload \<and> exp payload = Some x \<and> x < timegm (now e) \<longrightarrow>
      jwt_decode (now e) tok = None) \<and>
   ((\<forall>s\<in>set (sessions (database db)). \<not> (token s = tok \<and> now e < expires_at s)) \<longrightarrow>
      (\<exists>x. get_current_user e db tok = Inl x \<and> http_status x = 401)) \<and>
   (\<forall>payload. jwt_decode (now e) tok = Some payload \<and> sub payload = None \<longrightarrow>
      get_current_user e db tok = Inl (HTTPException 401 ''Could not validate credentials'' [])) \<and>
   (\<forall>payload i.
      jwt_decode (now e) tok = Some payload \<and> sub payload = Some i \<and>
      (\<exists>s\<in>set (sessions (database db)). token s = tok \<and> now e < expires_at s) \<longrightarrow>
        ((\<forall>u\<in>set (users (database db)). uid u \<noteq> i) \<longrightarrow>
           get_current_user e db tok = Inl (HTTPException 404 ''User not found'' [])) \<and>
        ((\<exists>u\<in>set (users (database db)). uid u = i) \<longrightarrow>
           (\<exists>u\<in>set (users (database db)). uid u = i \<and>
              find (\<lambda>u. uid u = i) (users (database db)) = Some u \<and>
              get_current_user e db tok = Inr u)))"
proof (intro conjI allI impI)
  assume "jwt_decode (now e) tok = None"
  then show "get_current_user e db tok =
        Inl (HTTPException 401 ''Could not validate credentials''
               [(''WWW-Authenticate'', ''Bearer'')])"
    by (rule get_current_user_decode_fails)
next
  fix payload x
  assume "tok = Signed payload \<and> exp payload = Some x \<and> x < timegm (now e)"
  then show "jwt_decode (now e) tok = None" by (simp add: jwt_decode_expired)
next
  assume "\<forall>s\<in>set (sessions (database db)). \<not> (token s = tok \<and> now e < expires_at s)"
  then show "\<exists>x. get_current_user e db tok = Inl x \<and> http_status x = 401"
    by (rule get_current_user_no_session)
next
  fix payload
  assume "jwt_decode (now e) tok = Some payload \<and> sub payload = None"
  then show "get_current_user e db tok =
               Inl (HTTPException 401 ''Could not validate credentials'' [])"
    by (simp add: get_current_user_def decode_token_def)
next
  fix payload i
  assume a: "jwt_decode (now e) tok = Some payload \<and> sub payload = Some i \<and>
      (\<exists>s\<in>set (sessions (database db)). token s = tok \<and> now e < expires_at s)"
  assume "\<forall>u\<in>set (users (database db)). uid u \<noteq> i"
  then have "find (\<lambda>u. uid u = i) (users (database db)) = None" by (simp add: find_None_set)
  with a show "get_current_user e db tok = Inl (HTTPException 404 ''User not found'' [])"
    by (simp add: get_current_user_found)
next
  fix payload i
  assume a: "jwt_decode (now e) tok = Some payload \<and> sub payload = Some i \<and>
      (\<exists>s\<in>set (sessions (database db)). token s = tok \<and> now e < expires_at s)"
  assume "\<exists>u\<in>set (users (database db)). uid u = i"
  then obtain u where u: "find (\<lambda>u. uid u = i) (users (database db)) = Some u"
    using find_exists [of "users (database db)" "\<lambda>u. uid u = i"] by blast
  with a have "get_current_user e db tok = Inr u" by (simp add: get_current_user_found)
  with u find_Some_set [OF u]
  show "\<exists>u\<in>set (users (database db)). uid u = i \<and>
              find (\<lambda>u. uid u = i) (users (database db)) = Some u \<and>
              get_current_user e db tok = Inr u" by blast
qed

theorem get_current_user_outcomes_witness:
  "get_current_user next_second (get_db next_second signed_up)
     (token (session_row at_signup alice)) = Inr alice \<and>
   get_current_user after_expiry (get_db after_expiry signed_up)
     (token (session_row at_signup alice)) =
     Inl (HTTPException 401 ''Could not validate credentials''
            [(''WWW-Authenticate'', ''Bearer'')]) \<and>
   (\<exists>x. get_current_user next_second (get_db next_second no_rows)
          (token (session_row at_signup alice)) = Inl x \<and> http_status x = 401) \<and>
   get_current_user next_second (get_db next_second (signed_up\<lparr>users := []\<rparr>))
     (token (session_row at_signup alice)) = Inl (HTTPException 404 ''User not found'' [])"
proof (intro conjI)
  let ?tok = "token (session_row at_signup alice)"
  let ?payload = "\<lparr>sub = Some ''7d444840'', email_claim = Some ''a@x.com'',
                   exp = Some 1700604800, token_type = Some ''access''\<rparr>"
  have sb: "sub ?payload = Some ''7d444840''" and ex: "exp ?payload = Some 1700604800" by simp_all
  have tk: "?tok = Signed ?payload" by (simp add: access_token_eq timegm_def example_data)
  show "get_current_user next_second (get_db next_second signed_up) ?tok = Inr alice"
  proof -
    let ?db = "get_db next_second signed_up"
    have row: "\<exists>s\<in>set (sessions (database ?db)). token s = ?tok \<and> now next_second < expires_at s"
      by (simp add: example_data)
    have usr: "\<exists>u\<in>set (users (database ?db)). uid u = ''7d444840''"
      by (simp add: example_data)
    have fnd: "find (\<lambda>u. uid u = ''7d444840'') (users (database ?db)) = Some alice"
      by (simp add: example_data)
    from get_current_user_outcomes [of next_second ?tok ?db]
    have "jwt_decode (now next_second) ?tok = Some ?payload \<and> sub ?payload = Some ''7d444840'' \<and>
          (\<exists>s\<in>set (sessions (database ?db)). token s = ?tok \<and> now next_second < expires_at s) \<longrightarrow>
          ((\<exists>u\<in>set (users (database ?db)). uid u = ''7d444840'') \<longrightarrow>
           (\<exists>u\<in>set (users (database ?db)). uid u = ''7d444840'' \<and>
              find (\<lambda>u. uid u = ''7d444840'') (users (database ?db)) = Some u \<and>
              get_current_user next_second ?db ?tok = Inr u))"
      by blast
    with example_access_decode sb row usr
    obtain u where "find (\<lambda>u. uid u = ''7d444840'') (users (database ?db)) = Some u"
      and "get_current_user next_second ?db ?tok = Inr u" by blast
    with fnd show ?thesis by simp
  qed
  show "get_current_user after_expiry (get_db after_expiry signed_up) ?tok =
     Inl (HTTPException 401 ''Could not validate credentials''
            [(''WWW-Authenticate'', ''Bearer'')])"
  proof -
    let ?db = "get_db after_expiry signed_up"
    have lt: "(1700604800::nat) < timegm (now after_expiry)"
      by (simp add: timegm_def example_data)
    from get_current_user_outcomes [of after_expiry ?tok ?db]
    have a: "?tok = Signed ?payload \<and> exp ?payload = Some 1700604800 \<and>
             1700604800 < timegm (now after_expiry) \<longrightarrow>
             jwt_decode (now after_expiry) ?tok = None"
      and b: "jwt_decode (now after_expiry) ?tok = None \<longrightarrow>
              get_current_user after_expiry ?db ?tok =
                Inl (HTTPException 401 ''Could not validate credentials''
                       [(''WWW-Authenticate'', ''Bearer'')])"
      by blast+
    from a tk ex lt have "jwt_decode (now after_expiry) ?tok = None" by blast
    with b show ?thesis by blast
  qed
  show "\<exists>x. get_current_user next_second (get_db next_second no_rows) ?tok = Inl x \<and>
            http_status x = 401"
  proof -
    have "\<forall>s\<in>set (sessions (database (get_db next_second no_rows))).
            \<not> (token s = ?tok \<and> now next_second < expires_at s)" by (simp add: no_rows_def)
    with get_current_user_outcomes [of next_second ?tok "get_db next_second no_rows"]
    show ?thesis by blast
  qed
  show "get_current_user next_second (get_db next_second (signed_up\<lparr>users := []\<rparr>)) ?tok =
          Inl (HTTPException 404 ''User not found'' [])"
  proof -
    let ?db = "get_db next_second (signed_up\<lparr>users := []\<rparr>)"
    have row: "\<exists>s\<in>set (sessions (database ?db)). token s = ?tok \<and> now next_second < expires_at s"
      by (simp add: example_data)
    have usr: "\<forall>u\<in>set (users (database ?db)). uid u \<noteq> ''7d444840''" by simp
    from get_current_user_outcomes [of next_second ?tok ?db]
    have "jwt_decode (now next_second) ?tok = Some ?payload \<and> sub ?payload = Some ''7d444840'' \<and>
          (\<exists>s\<in>set (sessions (database ?db)). token s = ?tok \<and> now next_second < expires_at s) \<longrightarrow>
          ((\<forall>u\<in>set (users (database ?db)). uid u \<noteq> ''7d444840'') \<longrightarrow>
           get_current_user next_second ?db ?tok = Inl (HTTPException 404 ''User not found'' []))"
      by blast
    with example_access_decode sb row usr show ?thesis by blast
  qed
qed

subsection \<open>Sign-in after sign-up\<close>

text \<open>
  Claim C6: after a successful sign-up, signing in with the same password succeeds and
  signing in with another password is answered with 401 \<open>Invalid credentials\<close>.
  The first half holds when the sign-in is served in another clock second than the
  sign-up, the tokens fit their columns and the storage server answers
  (\<open>sign_in_after_sign_up\<close>); the second half holds for a password that the library
  accepts and that differs from the first within the 72 bytes bcrypt reads
  (\<open>sign_in_wrong_password_after_sign_up\<close>, \<open>sign_in_same_72_bytes\<close>). A sign-in
  with the right password within the second of the sign-up issues the access token of the
  sign-up again, the INSERT violates \<open>unique=True\<close> on \<open>sessions.token\<close>, and the
  route raises instead of succeeding. This is the defect of claim C1.
\<close>

theorem sign_in_in_signup_second_fails:
  "sign_up at_signup no_rows ''a@x.com'' ''pw1'' None = (Inr (issued at_signup alice), signed_up) \<and>
   timegm (now same_second) = timegm (now at_signup) \<and>
   sign_in same_second signed_up ''a@x.com'' ''pw1'' = (Inl IntegrityError, signed_up)"
proof -
  have "sign_in same_second signed_up ''a@x.com'' ''pw1'' = (Inl IntegrityError, signed_up)"
    unfolding sign_in_closed example_auth
    by (simp add: example_refused)
  then show ?thesis by (simp add: example_signup example_seconds)
qed

subsection \<open>Failure of sign-in for unknown and for known e-mail addresses\<close>

text \<open>
  Claim C7: a sign-in with an e-mail address that no user has and a sign-in with a known
  address whose password is not verified fail alike, so that the caller cannot tell
  whether the address exists. For a password that the library accepts this is so
  (\<open>sign_in_failure_uniform_accepted\<close>). A password holding a NUL, or one of more than
  4096 characters, makes \<open>pwd_context.verify\<close> raise a \<open>ValueError\<close>; the password
  is verified only when the address is known, and the route does not catch the exception.
  The same request is then answered with 500 for a known address and with 401 for an
  unknown one.
\<close>

theorem sign_in_failure_tells_known_email:
  "sign_up at_signup no_rows ''a@x.com'' ''pw1'' None = (Inr (issued at_signup alice), signed_up) \<and>
   sign_in next_second signed_up ''a@x.com'' [CHR ''p'', CHR 0x00] = (Inl ValueError, signed_up) \<and>
   http_status ValueError = 500 \<and>
   sign_in next_second signed_up ''b@x.com'' [CHR ''p'', CHR 0x00] =
     (Inl (HTTPException 401 ''Invalid credentials'' [(''WWW-Authenticate'', ''Bearer'')]),
      signed_up) \<and>
   http_status (HTTPException 401 ''Invalid credentials'' [(''WWW-Authenticate'', ''Bearer'')]) =
     401"
proof -
  have r: "secret_refused [CHR ''p'', CHR 0x00]" by code_simp
  have "find (\<lambda>u. email u = ''a@x.com'') (users signed_up) = Some alice"
    by (simp add: example_data)
  then have a: "authenticate_user (get_db next_second signed_up) ''a@x.com'' [CHR ''p'', CHR 0x00] =
                  Inl ValueError"
    using r by (rule authenticate_user_raises)
  have "\<forall>u\<in>set (users signed_up). email u \<noteq> ''b@x.com''" by (simp add: example_data)
  then have b: "authenticate_user (get_db next_second signed_up) ''b@x.com'' [CHR ''p'', CHR 0x00] =
                  Inr None"
    by (rule authenticate_user_unknown)
  show ?thesis
    by (simp add: example_signup sign_in_raises [OF a] sign_in_rejected [OF b] http_status_def)
qed

subsection \<open>Logout\<close>

text \<open>
  Claim C9: with a storage server that accepts its commits, \<open>logout\<close> raises for
  no token and no tables, neither on the first call nor on a second one. Where the tokens
  of the session rows are distinct, as \<open>unique=True\<close> keeps them, the first call removes
  the row holding the token, if there is one, and the second call changes nothing.
\<close>

theorem logout_idempotent:
  assumes "storage_accepts e" and "storage_accepts e'"
  shows "fst (logout (get_db e t) tok) = Inr () \<and>
         fst (logout (get_db e' (database (snd (logout (get_db e t) tok)))) tok) = Inr () \<and>
         (distinct (map token (sessions t)) \<longrightarrow>
            database (snd (logout (get_db e t) tok)) =
              t\<lparr>sessions := filter (\<lambda>s. token s \<noteq> tok) (sessions t)\<rparr> \<and>
            logout (get_db e' (database (snd (logout (get_db e t) tok)))) tok =
              (Inr (), get_db e' (database (snd (logout (get_db e t) tok)))))"
proof (intro conjI impI)
  have r1: "fst (logout (get_db e t) tok) = Inr ()" if "storage_accepts e" for e :: env and t
    using that by (simp add: logout_closed storage_accepts_answer_ok split: option.splits)
  from r1 [OF assms(1)] show "fst (logout (get_db e t) tok) = Inr ()" .
  from r1 [OF assms(2)]
  show "fst (logout (get_db e' (database (snd (logout (get_db e t) tok)))) tok) = Inr ()" .
next
  assume d: "distinct (map token (sessions t))"
  from logout_removes_token [OF assms(1) d]
  show t1: "database (snd (logout (get_db e t) tok)) =
              t\<lparr>sessions := filter (\<lambda>s. token s \<noteq> tok) (sessions t)\<rparr>" by simp
  have "\<forall>s\<in>set (sessions (t\<lparr>sessions := filter (\<lambda>s. token s \<noteq> tok) (sessions t)\<rparr>)). token s \<noteq> tok"
    by simp
  then show "logout (get_db e' (database (snd (logout (get_db e t) tok)))) tok =
              (Inr (), get_db e' (database (snd (logout (get_db e t) tok))))"
    unfolding t1 by (rule logout_unknown)
qed

theorem logout_idempotent_witness:
  "storage_accepts next_second \<and> distinct (map token (sessions signed_up)) \<and>
   fst (logout (get_db next_second signed_up) (token (session_row at_signup alice))) = Inr () \<and>
   database (snd (logout (get_db next_second signed_up) (token (session_row at_signup alice)))) =
     signed_up\<lparr>sessions := []\<rparr> \<and>
   logout (get_db next_second (signed_up\<lparr>sessions := []\<rparr>)) (token (session_row at_signup alice)) =
     (Inr (), get_db next_second (signed_up\<lparr>sessions := []\<rparr>))"
proof -
  let ?tok = "token (session_row at_signup alice)"
  have h: "storage_accepts next_second" and d: "distinct (map token (sessions signed_up))"
    by (simp_all add: example_data)
  have f: "signed_up\<lparr>sessions := filter (\<lambda>s. token s \<noteq> ?tok) (sessions signed_up)\<rparr> =
           signed_up\<lparr>sessions := []\<rparr>" by (simp add: example_data)
  from logout_idempotent [OF h h, of signed_up ?tok] d
  have 1: "fst (logout (get_db next_second signed_up) ?tok) = Inr ()"
    and 2: "database (snd (logout (get_db next_second signed_up) ?tok)) = signed_up\<lparr>sessions := []\<rparr>"
    and 3: "logout (get_db next_second (database (snd (logout (get_db next_second signed_up) ?tok)))) ?tok =
              (Inr (), get_db next_second (database (snd (logout (get_db next_second signed_up) ?tok))))"
    unfolding f by blast+
  from 3 have "logout (get_db next_second (signed_up\<lparr>sessions := []\<rparr>)) ?tok =
     (Inr (), get_db next_second (signed_up\<lparr>sessions := []\<rparr>))"
    unfolding 2 .
  with 1 2 h d show ?thesis by blast
qed

text \<open>
  Claim C10: \<open>logout\<close> leaves the users and the refresh tokens as they were and
  removes at most one session row, one that holds the token given; hence every refresh
  that succeeds on the tables before the logout succeeds on the tables after it, with the
  same answer.
\<close>

theorem logout_frame:
  "users (database (snd (logout (get_db e t) tok))) = users t \<and>
   refresh_tokens (database (snd (logout (get_db e t) tok))) = refresh_tokens t \<and>
   (sessions (database (snd (logout (get_db e t) tok))) = sessions t \<or>
    (\<exists>s\<in>set (sessions t). token s = tok \<and>
       sessions (database (snd (logout (get_db e t) tok))) = remove1 s (sessions t))) \<and>
   (\<forall>e2 rt r t2. refresh_token e2 t rt = (Inr r, t2) \<longrightarrow>
      (\<exists>t3. refresh_token e2 (database (snd (logout (get_db e t) tok))) rt = (Inr r, t3)))"
proof -
  let ?t1 = "database (snd (logout (get_db e t) tok))"
  have a: "users ?t1 = users t" and b: "refresh_tokens ?t1 = refresh_tokens t"
    and c: "sessions ?t1 = sessions t \<or>
            (\<exists>s\<in>set (sessions t). token s = tok \<and> sessions ?t1 = remove1 s (sessions t))"
    by (auto simp: logout_closed split: option.splits dest!: find_Some_set)
  from c have "set (sessions ?t1) \<subseteq> set (sessions t)"
    using set_remove1_subset by fastforce
  with a b have "\<exists>t3. refresh_token e2 ?t1 rt = (Inr r, t3)"
    if "refresh_token e2 t rt = (Inr r, t2)" for e2 rt r t2
    using that by (rule refresh_token_fewer_sessions)
  with a b c show ?thesis by blast
qed

theorem logout_frame_witness:
  "refresh_token next_second signed_up (refreshToken (issued at_signup alice)) =
     (Inr (issued next_second alice),
      signed_up\<lparr>sessions := sessions signed_up @ [session_row next_second alice],
                refresh_tokens := refresh_tokens no_rows @ [refresh_row next_second alice]\<rparr>) \<and>
   users (database (snd (logout (get_db next_second signed_up)
                            (access (issued at_signup alice))))) = users signed_up \<and>
   refresh_tokens (database (snd (logout (get_db next_second signed_up)
                                     (access (issued at_signup alice))))) =
     refresh_tokens signed_up \<and>
   (\<exists>t3. refresh_token next_second
           (database (snd (logout (get_db next_second signed_up)
                             (access (issued at_signup alice)))))
           (refreshToken (issued at_signup alice)) = (Inr (issued next_second alice), t3))"
  using logout_frame [of next_second signed_up "access (issued at_signup alice)"]
        example_next_second(2)
  by blast


section \<open>The claim about the similarity search\<close>







lemma example_sqrt: "sqrt 625 = 25" "sqrt 25 = 5" "sqrt 2500 = 50" "sqrt 169 = 13"
proof -
  have "sqrt (25\<^sup>2) = 25" "sqrt (5\<^sup>2) = 5" "sqrt (50\<^sup>2) = 50" "sqrt (13\<^sup>2) = 13"
    by (simp_all only: real_sqrt_abs abs_numeral)
  then show "sqrt 625 = 25" "sqrt 25 = 5" "sqrt 2500 = 50" "sqrt 169 = 13" by simp_all
qed


lemma example_distances:
  "vector_cosine_distance [24, 7] [1, 0] = 1 / 25"
  "vector_cosine_distance [4, 3] [1, 0] = 1 / 5"
  "vector_cosine_distance [48, 14] [1, 0] = 1 / 25"
  "vector_cosine_distance [12, 5] [1, 0] = 1 / 13"
  by (simp_all add: vector_cosine_distance_def dot_def example_sqrt)

lemma example_select:
  "select_similarity (example_services order_by) [1, 0] example_rows =
     [(example_rows ! 0, 24 / 25), (example_rows ! 1, 4 / 5), (example_rows ! 2, 24 / 25),
      (example_rows ! 3, 12 / 13)]"
  by (simp add: select_similarity_def map_filter_simps example_rows_def
                example_services_def example_distances)


lemma example_qualifying_owner:
  "qualifying (example_services order_by) [1, 0] example_rows (example_request\<lparr>limit := 1\<rparr>)
     (Some alice) =
     [(example_rows ! 0, 24 / 25), (example_rows ! 2, 24 / 25)]"
  unfolding qualifying_def example_select
  by (simp add: example_request_def where_clause_def example_rows_def example_alice)

lemma example_services_simps:
  "create_embedding (example_services order_by) text' = Inr [1, 0]"
  "server_answers (example_services order_by)"
  "order_by_similarity_desc (example_services order_by) = order_by"
  "cosine_distance (example_services order_by) = vector_cosine_distance"
  by (simp_all add: example_services_def)

lemma search_documents_closed:
  assumes "create_embedding sv (query request) = Inr q" and "server_answers sv"
    and "0 \<le> limit request" and "limit request \<le> 9223372036854775807"
  shows "search_documents sv rows request current_user =
           Inr (map format_result
                  (take (nat (limit request))
                     (order_by_similarity_desc sv (qualifying sv q rows request current_user))))"
  using assms by (simp add: search_documents_def)



lemma example_search_owner:
  "search_documents (example_services stable_order) example_rows
     (example_request\<lparr>limit := 1\<rparr>) (Some alice) =
     Inr [\<lparr>result_id = ''e1'', result_content = ''alpha'', result_metadata = [],
           distance = 1 / 25\<rparr>]"
proof -
  let ?r = "example_request\<lparr>limit := 1\<rparr>"
  have "search_documents (example_services stable_order) example_rows ?r (Some alice) =
          Inr (map format_result
                 (take (nat (limit ?r))
                    (order_by_similarity_desc (example_services stable_order)
                       (qualifying (example_services stable_order) [1, 0] example_rows ?r
                          (Some alice)))))"
    by (rule search_documents_closed) (simp_all add: example_services_simps)
  then show ?thesis
    unfolding example_qualifying_owner example_services_simps
    by (simp add: stable_order_def format_result_def example_rows_def)
qed




end
